theory Spec2Isabelle
  imports Main
begin

section \<open>The network composition function (fn.go)\<close>

text \<open>
  The repository holds one function, \<open>RunFunction\<close>: it reads a topology description
  (id, count, includeGateway, region, providerConfigName) from the observed composite
  resource of a request, builds \<open>count\<close> VPC objects and, on demand, one InternetGateway
  per VPC, stores their converted forms in the map of desired composed resources under
  generated names, and writes the map back into the response.

  The function is embedded as a HOL function of the request. What the Go code obtains
  from the function SDK and from Kubernetes (reading the request, the typed field
  getters, the conversion of an object to its unstructured form and of a resource to the
  wire form) is not part of the repository; these operations are parameters of the
  model, collected in the record \<open>sdk\<close>, so every theorem holds for whatever they return.
  The SDK's helpers that build and fill the response are modelled from the spec.
\<close>

subsection \<open>Errors\<close>

text \<open>
  A Go \<open>error\<close> is represented by its message (\<open>err.Error()\<close>). \<open>errors.Wrapf\<close> of
  github.com/pkg/errors puts the formatted message, a colon and a space in front of the
  message of the cause. The \<open>%T\<close> verbs of the source's messages are written out as
  the type names they print.
\<close>

type_synonym error = string

definition Wrapf :: "error \<Rightarrow> string \<Rightarrow> error" where
  "Wrapf err msg = msg @ '': '' @ err"

subsection \<open>Formatting the names\<close>

text \<open>
  \<open>fmt.Sprintf("vpc-%s-%d", id, i)\<close>: the verb \<open>%s\<close> copies the string, the verb
  \<open>%d\<close> prints the integer in decimal, with a minus sign in front of a negative one. The Go
  variable \<open>id\<close> is written \<open>id'\<close> throughout, \<open>id\<close> being the identity function of HOL.
\<close>

definition digit :: "nat \<Rightarrow> char" where
  "digit n = ''0123456789'' ! n"

fun FormatUint :: "nat \<Rightarrow> string" where
  "FormatUint n = (if n < 10 then [digit n] else FormatUint (n div 10) @ [digit (n mod 10)])"

definition Sprintf_d :: "int \<Rightarrow> string" where
  "Sprintf_d i = (if i < 0 then CHR ''-'' # FormatUint (nat (- i)) else FormatUint (nat i))"

definition vpcName :: "string \<Rightarrow> int \<Rightarrow> string" where
  "vpcName id' i = ''vpc-'' @ id' @ ''-'' @ Sprintf_d i"

definition gatewayName :: "string \<Rightarrow> int \<Rightarrow> string" where
  "gatewayName id' i = ''gateway-'' @ id' @ ''-'' @ Sprintf_d i"

subsection \<open>The Kubernetes objects the function builds\<close>

text \<open>
  The structs of the composite literals at fn.go:72-91 and fn.go:104-125. A pointer
  field set with \<open>ptr.To\<close> is \<open>Some\<close> of the value, a field the literal leaves out keeps
  Go's zero value (\<open>nil\<close>, that is \<open>None\<close>). Of the fields the source never sets only
  the two direct references of the gateway to its VPC (\<open>VPCID\<close>, \<open>VPCIDRef\<close>) are
  kept, since the gateway is linked through the selector instead of them.
\<close>

record ObjectMeta =
  Name :: string
  Labels :: "string \<rightharpoonup> string"

record Reference =
  ref_Name :: string

record Selector =
  MatchControllerRef :: "bool option"
  MatchLabels :: "string \<rightharpoonup> string"

record ResourceSpec =
  ProviderConfigReference :: "Reference option"

record VPCParameters_2 =
  vpc_Region :: "string option"
  CidrBlock :: "string option"
  EnableDNSSupport :: "bool option"
  EnableDNSHostnames :: "bool option"

record VPCSpec =
  vpc_ForProvider :: VPCParameters_2
  vpc_ResourceSpec :: ResourceSpec

record VPC =
  vpc_ObjectMeta :: ObjectMeta
  vpc_Spec :: VPCSpec

record InternetGatewayParameters_2 =
  igw_Region :: "string option"
  VPCID :: "string option"
  VPCIDRef :: "Reference option"
  VPCIDSelector :: "Selector option"

record InternetGatewaySpec =
  igw_ForProvider :: InternetGatewayParameters_2
  igw_ResourceSpec :: ResourceSpec

record InternetGateway =
  igw_ObjectMeta :: ObjectMeta
  igw_Spec :: InternetGatewaySpec

text \<open>The argument of \<open>composed.From\<close> is either of the two.\<close>

datatype object = VPCObject VPC | InternetGatewayObject InternetGateway

text \<open>
  \<open>resource.DesiredComposed{Resource: dc}\<close>, the value stored in the map of desired
  composed resources; \<open>'u\<close> is the unstructured form \<open>composed.From\<close> returns.
\<close>

datatype 'u DesiredComposed = DesiredComposed (Resource: 'u)

definition network_id_label :: string where
  "network_id_label = ''networks.meta.fn.crossplane.io/network-id''"

definition vpc_id_label :: string where
  "vpc_id_label = ''networks.meta.fn.crossplane.io/vpc-id''"

text \<open>The VPC of replica \<open>i\<close> (fn.go:71-91).\<close>

definition vpc :: "string \<Rightarrow> string \<Rightarrow> string \<Rightarrow> int \<Rightarrow> VPC" where
  "vpc id' region providerConfigName i =
     \<lparr>vpc_ObjectMeta =
        \<lparr>Name = vpcName id' i,
         Labels = [network_id_label \<mapsto> id', vpc_id_label \<mapsto> vpcName id' i]\<rparr>,
      vpc_Spec =
        \<lparr>vpc_ForProvider =
           \<lparr>vpc_Region = Some region,
            CidrBlock = Some ''192.168.0.0/16'',
            EnableDNSSupport = Some True,
            EnableDNSHostnames = Some True\<rparr>,
         vpc_ResourceSpec =
           \<lparr>ProviderConfigReference = Some \<lparr>ref_Name = providerConfigName\<rparr>\<rparr>\<rparr>\<rparr>"

text \<open>The InternetGateway of replica \<open>i\<close> (fn.go:103-125).\<close>

definition gateway :: "string \<Rightarrow> string \<Rightarrow> string \<Rightarrow> int \<Rightarrow> InternetGateway" where
  "gateway id' region providerConfigName i =
     \<lparr>igw_ObjectMeta =
        \<lparr>Name = gatewayName id' i,
         Labels = [network_id_label \<mapsto> id']\<rparr>,
      igw_Spec =
        \<lparr>igw_ForProvider =
           \<lparr>igw_Region = Some region,
            VPCID = None,
            VPCIDRef = None,
            VPCIDSelector =
              Some \<lparr>MatchControllerRef = Some True,
                    MatchLabels = [vpc_id_label \<mapsto> vpcName id' i]\<rparr>\<rparr>,
         igw_ResourceSpec =
           \<lparr>ProviderConfigReference = Some \<lparr>ref_Name = providerConfigName\<rparr>\<rparr>\<rparr>\<rparr>"

subsection \<open>Request and response\<close>

text \<open>
  The parts of \<open>fnv1.RunFunctionRequest\<close> and \<open>fnv1.RunFunctionResponse\<close> the function
  touches. \<open>'o\<close> is the observed state of the request, \<open>'w\<close> a resource in the wire
  form of the protocol; \<open>req_Desired\<close> and \<open>rsp_Desired\<close> are the resources of the
  desired state, by name. A duration is a number of nanoseconds, as \<open>time.Duration\<close>.
\<close>

record ('o, 'w) RunFunctionRequest =
  req_Tag :: string
  req_Observed :: 'o
  req_Desired :: "string \<rightharpoonup> 'w"

datatype Severity = SEVERITY_UNSPECIFIED | SEVERITY_FATAL | SEVERITY_WARNING | SEVERITY_NORMAL

record Result =
  res_Severity :: Severity
  res_Message :: string

record 'w RunFunctionResponse =
  rsp_Tag :: string
  rsp_Ttl :: int
  rsp_Desired :: "string \<rightharpoonup> 'w"
  rsp_Results :: "Result list"

definition Second :: int where
  "Second = 1000000000"

definition Minute :: int where
  "Minute = 60 * Second"

text \<open>
  Modelled from the spec: \<open>response.DefaultTTL\<close> is a constant of the function SDK, not
  of this repository; the spec gives "a success response with a 60-second TTL", and the
  repository's test expects \<open>durationpb.New(60 * time.Second)\<close>.
\<close>

definition DefaultTTL :: int where
  "DefaultTTL = 1 * Minute"

text \<open>
  Modelled from the spec: \<open>response.To\<close> and \<open>response.Fatal\<close> of the function SDK.
  \<open>To\<close> starts the response to a request: it carries the request's tag, the given
  time-to-live and the request's desired state, and no result. \<open>Fatal\<close> marks the
  response fatal: it appends a result of severity fatal with the error's message.
\<close>

definition response_To :: "('o, 'w) RunFunctionRequest \<Rightarrow> int \<Rightarrow> 'w RunFunctionResponse" where
  "response_To req ttl =
     \<lparr>rsp_Tag = req_Tag req, rsp_Ttl = ttl, rsp_Desired = req_Desired req, rsp_Results = []\<rparr>"

definition response_Fatal :: "'w RunFunctionResponse \<Rightarrow> error \<Rightarrow> 'w RunFunctionResponse" where
  "response_Fatal rsp err =
     rsp\<lparr>rsp_Results := rsp_Results rsp @ [\<lparr>res_Severity = SEVERITY_FATAL, res_Message = err\<rparr>]\<rparr>"

text \<open>A response is fatal when one of its results has severity fatal.\<close>

definition is_fatal :: "'w RunFunctionResponse \<Rightarrow> bool" where
  "is_fatal rsp = (SEVERITY_FATAL \<in> res_Severity ` set (rsp_Results rsp))"

subsection \<open>The operations of the SDK\<close>

text \<open>
  The calls of fn.go into the function SDK, as parameters. A call whose error the source
  checks returns \<open>Inl\<close> of the error or \<open>Inr\<close> of the value; the field getters, whose
  error the source drops (\<open>id, _ := ...\<close>), return the pair of value and error as in Go.
  \<open>From\<close> is \<open>composed.From\<close> after the \<open>AddToScheme\<close> call of fn.go:66.
  \<open>AsStruct\<close> converts one desired composed resource to the wire form of the response;
  \<open>SetFailure\<close> is explained with \<open>SetDesiredComposedResources\<close> below.
\<close>

record ('o, 'w, 'xr, 'u) sdk =
  GetObservedCompositeResource :: "('o, 'w) RunFunctionRequest \<Rightarrow> error + 'xr"
  GetString :: "'xr \<Rightarrow> string \<Rightarrow> string \<times> error option"
  GetInteger :: "'xr \<Rightarrow> string \<Rightarrow> int \<times> error option"
  GetBool :: "'xr \<Rightarrow> string \<Rightarrow> bool \<times> error option"
  GetDesiredComposedResources ::
    "('o, 'w) RunFunctionRequest \<Rightarrow> error + (string \<rightharpoonup> 'u DesiredComposed)"
  From :: "object \<Rightarrow> error + 'u"
  AsStruct :: "'u DesiredComposed \<Rightarrow> error + 'w"
  SetFailure ::
    "(string \<rightharpoonup> 'w) \<Rightarrow> (string \<rightharpoonup> 'u DesiredComposed) \<Rightarrow> (string \<rightharpoonup> 'w) \<times> error"

text \<open>
  Modelled from the spec: \<open>response.SetDesiredComposedResources\<close> of the function SDK,
  which is not under src/. The spec has the response "carry the full updated
  desired-resource mapping" on success, and fn.go:138 has the call "set the desired
  composed resources back on the response". The function takes the resources of the
  response's desired state and the map to write, and returns the resources as it leaves
  them and its error; it touches nothing else of the response. When every resource of
  the map converts to the wire form, each is stored under its name, a name the map does
  not have keeps the resource the response has, and there is no error. When some
  resource does not convert, the call returns an error; which resources it has stored by
  then depends on the order in which Go ranges over the map, which the source does not
  determine, so the resources it leaves and the error are those of \<open>SetFailure\<close>.
\<close>

definition SetDesiredComposedResources ::
  "('o, 'w, 'xr, 'u) sdk \<Rightarrow> (string \<rightharpoonup> 'w) \<Rightarrow> (string \<rightharpoonup> 'u DesiredComposed) \<Rightarrow>
   (string \<rightharpoonup> 'w) \<times> error option" where
  "SetDesiredComposedResources k resources desired =
     (if \<forall>dcd\<in>ran desired. \<not> isl (AsStruct k dcd)
      then (\<lambda>name. case desired name of
                     None \<Rightarrow> resources name
                   | Some dcd \<Rightarrow>
                       (case AsStruct k dcd of
                          Inl err \<Rightarrow> resources name
                        | Inr w \<Rightarrow> Some w),
            None)
      else (case SetFailure k resources desired of
              (resources', err) \<Rightarrow> (resources', Some err)))"

subsection \<open>The replica loop (fn.go:69-136)\<close>

text \<open>
  The body of the loop at index \<open>i\<close>, on the map \<open>desired\<close>: it returns the map as the
  body leaves it, and the error with which the body left the function, if it did.
\<close>

definition replica ::
  "('o, 'w, 'xr, 'u) sdk \<Rightarrow> string \<Rightarrow> bool \<Rightarrow> string \<Rightarrow> string \<Rightarrow> int \<Rightarrow>
   (string \<rightharpoonup> 'u DesiredComposed) \<Rightarrow> (string \<rightharpoonup> 'u DesiredComposed) \<times> error option" where
  "replica k id' includeGateway region providerConfigName i desired =
     (case From k (VPCObject (vpc id' region providerConfigName i)) of
        Inl err \<Rightarrow>
          (desired, Some (Wrapf err ''cannot convert *v1beta1.VPC to *composed.Unstructured''))
      | Inr dcVPC \<Rightarrow>
          (let desired = desired(vpcName id' i \<mapsto> DesiredComposed dcVPC) in
           if includeGateway then
             (case From k (InternetGatewayObject (gateway id' region providerConfigName i)) of
                Inl err \<Rightarrow>
                  (desired,
                   Some (Wrapf err
                     ''cannot convert *v1beta1.InternetGateway to *composed.Unstructured''))
              | Inr dcGateway \<Rightarrow>
                  (desired(gatewayName id' i \<mapsto> DesiredComposed dcGateway), None))
           else (desired, None)))"

text \<open>
  \<open>for i := range count\<close>: \<open>i\<close> runs from 0 to \<open>count - 1\<close>, and not at all when
  \<open>count \<le> 0\<close>. \<open>count\<close> is an \<open>int64\<close> in the source; the loop never computes a value
  above \<open>count\<close>, so no arithmetic of it wraps and the integers are those of HOL.
\<close>

function replicas ::
  "('o, 'w, 'xr, 'u) sdk \<Rightarrow> string \<Rightarrow> bool \<Rightarrow> string \<Rightarrow> string \<Rightarrow> int \<Rightarrow> int \<Rightarrow>
   (string \<rightharpoonup> 'u DesiredComposed) \<Rightarrow> (string \<rightharpoonup> 'u DesiredComposed) \<times> error option" where
  "replicas k id' includeGateway region providerConfigName i count desired =
     (if i < count then
        (case replica k id' includeGateway region providerConfigName i desired of
           (desired', Some err) \<Rightarrow> (desired', Some err)
         | (desired', None) \<Rightarrow>
             replicas k id' includeGateway region providerConfigName (i + 1) count desired')
      else (desired, None))"
  by pat_completeness auto

termination
  by (relation "measure (\<lambda>(k, id', includeGateway, region, providerConfigName, i, count, desired).
        nat (count - i))") auto

declare replicas.simps [simp del]

subsection \<open>RunFunction (fn.go:30-146)\<close>

text \<open>
  The Go function returns the response and an error. The model returns both, and with
  them the map \<open>desired\<close> as the function leaves it (\<open>None\<close> when the function returns
  before it has the map), so that what the function does to the map can be stated. The
  two logging calls have no effect on any of them.
\<close>

record ('w, 'u) outcome =
  out_rsp :: "'w RunFunctionResponse"
  out_err :: "error option"
  out_desired :: "(string \<rightharpoonup> 'u DesiredComposed) option"

definition RunFunction ::
  "('o, 'w, 'xr, 'u) sdk \<Rightarrow> ('o, 'w) RunFunctionRequest \<Rightarrow> ('w, 'u) outcome" where
  "RunFunction k req =
     (let rsp = response_To req DefaultTTL in
      case GetObservedCompositeResource k req of
        Inl err \<Rightarrow>
          \<lparr>out_rsp = response_Fatal rsp (Wrapf err ''cannot get desired XR''),
           out_err = None, out_desired = None\<rparr>
      | Inr oxr \<Rightarrow>
          (let id' = fst (GetString k oxr ''spec.id'');
               count = fst (GetInteger k oxr ''spec.count'');
               includeGateway = fst (GetBool k oxr ''spec.includeGateway'');
               region = fst (GetString k oxr ''spec.region'');
               region = (if region = '''' then ''eu-central-1'' else region);
               providerConfigName = fst (GetString k oxr ''spec.providerConfigName'');
               providerConfigName =
                 (if providerConfigName = '''' then ''default'' else providerConfigName)
           in
           case GetDesiredComposedResources k req of
             Inl err \<Rightarrow>
               \<lparr>out_rsp = response_Fatal rsp
                  (Wrapf err ''cannot get desired resources from *v1.RunFunctionRequest''),
                out_err = None, out_desired = None\<rparr>
           | Inr desired \<Rightarrow>
               (case replicas k id' includeGateway region providerConfigName 0 count desired of
                  (desired, Some err) \<Rightarrow>
                    \<lparr>out_rsp = response_Fatal rsp err,
                     out_err = None, out_desired = Some desired\<rparr>
                | (desired, None) \<Rightarrow>
                    (case SetDesiredComposedResources k (rsp_Desired rsp) desired of
                       (resources, Some err) \<Rightarrow>
                         \<lparr>out_rsp = response_Fatal (rsp\<lparr>rsp_Desired := resources\<rparr>)
                            (Wrapf err
                              ''cannot set desired composed resources in *v1.RunFunctionResponse''),
                          out_err = None, out_desired = Some desired\<rparr>
                     | (resources, None) \<Rightarrow>
                         \<lparr>out_rsp = rsp\<lparr>rsp_Desired := resources\<rparr>,
                          out_err = None, out_desired = Some desired\<rparr>))))"

subsection \<open>The values RunFunction reads from the composite resource (fn.go:43-53)\<close>

text \<open>
  The values of the local variables \<open>id\<close>, \<open>count\<close>, \<open>includeGateway\<close>, \<open>region\<close> and
  \<open>providerConfigName\<close> after fn.go:53, as functions of the composite resource.
\<close>

definition spec_id :: "('o, 'w, 'xr, 'u) sdk \<Rightarrow> 'xr \<Rightarrow> string" where
  "spec_id k oxr = fst (GetString k oxr ''spec.id'')"

definition spec_count :: "('o, 'w, 'xr, 'u) sdk \<Rightarrow> 'xr \<Rightarrow> int" where
  "spec_count k oxr = fst (GetInteger k oxr ''spec.count'')"

definition spec_includeGateway :: "('o, 'w, 'xr, 'u) sdk \<Rightarrow> 'xr \<Rightarrow> bool" where
  "spec_includeGateway k oxr = fst (GetBool k oxr ''spec.includeGateway'')"

definition spec_region :: "('o, 'w, 'xr, 'u) sdk \<Rightarrow> 'xr \<Rightarrow> string" where
  "spec_region k oxr =
     (let region = fst (GetString k oxr ''spec.region'')
      in if region = '''' then ''eu-central-1'' else region)"

definition spec_providerConfigName :: "('o, 'w, 'xr, 'u) sdk \<Rightarrow> 'xr \<Rightarrow> string" where
  "spec_providerConfigName k oxr =
     (let providerConfigName = fst (GetString k oxr ''spec.providerConfigName'')
      in if providerConfigName = '''' then ''default'' else providerConfigName)"

subsection \<open>Notions used to state the properties\<close>

text \<open>Reading a decimal numeral back, the inverse of \<open>FormatUint\<close>.\<close>

definition ParseUint :: "string \<Rightarrow> nat" where
  "ParseUint s = foldl (\<lambda>a c. 10 * a + (of_char c - 48)) 0 s"

text \<open>The names the loop writes for the indices from \<open>i\<close> up to, not including, \<open>j\<close>.\<close>

definition names :: "string \<Rightarrow> bool \<Rightarrow> int \<Rightarrow> int \<Rightarrow> string set" where
  "names a g i j = vpcName a ` {i..<j} \<union> (if g then gatewayName a ` {i..<j} else {})"

text \<open>Both conversions of replica \<open>i\<close> succeed (the gateway's only when one is built).\<close>

definition converts ::
  "('o, 'w, 'xr, 'u) sdk \<Rightarrow> string \<Rightarrow> bool \<Rightarrow> string \<Rightarrow> string \<Rightarrow> int \<Rightarrow> bool" where
  "converts k a g r p i =
     (\<not> isl (From k (VPCObject (vpc a r p i))) \<and>
      (g \<longrightarrow> \<not> isl (From k (InternetGatewayObject (gateway a r p i)))))"

text \<open>The map holds, under the name, the converted form of the object.\<close>

definition holds ::
  "('o, 'w, 'xr, 'u) sdk \<Rightarrow> (string \<rightharpoonup> 'u DesiredComposed) \<Rightarrow> string \<Rightarrow> object \<Rightarrow> bool" where
  "holds k desired name obj =
     (case From k obj of Inl err \<Rightarrow> False | Inr u \<Rightarrow> desired name = Some (DesiredComposed u))"

subsection \<open>A concrete SDK and concrete requests\<close>

text \<open>
  An instance of the parameters on which the function can be run: the composite resource
  is a list of fields by path, the unstructured form and the wire form of an object are
  the object itself, \<open>composed.From\<close> fails on the objects \<open>bad\<close> names, and no
  resource converts to the wire form when \<open>wfail\<close> is set, so that writing a map that is
  not empty into the response fails. \<open>xr_code\<close> is the composite resource of
  the repository's test, \<open>xr_net\<close> one with two replicas and neither region nor provider
  configuration, \<open>xr_none\<close> one with no replica.
\<close>

datatype field = String string | Integer int | Bool bool

definition field_GetString :: "(string \<times> field) list \<Rightarrow> string \<Rightarrow> string \<times> error option" where
  "field_GetString xr path =
     (case map_of xr path of
        Some (String s) \<Rightarrow> (s, None)
      | _ \<Rightarrow> ('''', Some (path @ '': not a string'')))"

definition field_GetInteger :: "(string \<times> field) list \<Rightarrow> string \<Rightarrow> int \<times> error option" where
  "field_GetInteger xr path =
     (case map_of xr path of
        Some (Integer n) \<Rightarrow> (n, None)
      | _ \<Rightarrow> (0, Some (path @ '': not a (int64) number'')))"

definition field_GetBool :: "(string \<times> field) list \<Rightarrow> string \<Rightarrow> bool \<times> error option" where
  "field_GetBool xr path =
     (case map_of xr path of
        Some (Bool b) \<Rightarrow> (b, None)
      | _ \<Rightarrow> (False, Some (path @ '': not a bool'')))"

definition fixture ::
  "(object \<Rightarrow> bool) \<Rightarrow> bool \<Rightarrow>
   ((string \<times> field) list option, object, (string \<times> field) list, object) sdk" where
  "fixture bad wfail =
     \<lparr>GetObservedCompositeResource =
        (\<lambda>req. case req_Observed req of
                 None \<Rightarrow> Inl ''no composite resource''
               | Some xr \<Rightarrow> Inr xr),
      GetString = field_GetString,
      GetInteger = field_GetInteger,
      GetBool = field_GetBool,
      GetDesiredComposedResources = (\<lambda>req. Inr (map_option DesiredComposed \<circ> req_Desired req)),
      From = (\<lambda>obj. if bad obj then Inl ''no kind registered'' else Inr obj),
      AsStruct = (\<lambda>dcd. if wfail then Inl ''cannot marshal'' else Inr (Resource dcd)),
      SetFailure = (\<lambda>resources desired. (resources, ''cannot marshal''))\<rparr>"

definition no_object :: "object \<Rightarrow> bool" where
  "no_object obj = False"

definition object_named :: "string \<Rightarrow> object \<Rightarrow> bool" where
  "object_named n obj =
     (case obj of
        VPCObject v \<Rightarrow> Name (vpc_ObjectMeta v) = n
      | InternetGatewayObject g \<Rightarrow> Name (igw_ObjectMeta g) = n)"

definition xr_code :: "(string \<times> field) list" where
  "xr_code =
     [(''spec.id'', String ''code''), (''spec.count'', Integer 1),
      (''spec.includeGateway'', Bool True), (''spec.providerConfigName'', String ''default''),
      (''spec.region'', String ''eu-central-1'')]"

definition xr_net :: "(string \<times> field) list" where
  "xr_net =
     [(''spec.id'', String ''net''), (''spec.count'', Integer 2),
      (''spec.includeGateway'', Bool True)]"

definition xr_none :: "(string \<times> field) list" where
  "xr_none = [(''spec.id'', String ''none''), (''spec.count'', Integer 0)]"

definition request ::
  "(string \<times> field) list option \<Rightarrow> (string \<rightharpoonup> object) \<Rightarrow>
   ((string \<times> field) list option, object) RunFunctionRequest" where
  "request xr desired = \<lparr>req_Tag = ''tag'', req_Observed = xr, req_Desired = desired\<rparr>"

text \<open>A resource of some other producer.\<close>

definition other :: object where
  "other = VPCObject (vpc ''other'' ''us-east-1'' ''aws'' 7)"

text \<open>The concrete SDK when the desired resources of the request cannot be read.\<close>

definition fixture_no_desired ::
  "((string \<times> field) list option, object, (string \<times> field) list, object) sdk" where
  "fixture_no_desired =
     (fixture no_object False)
       \<lparr>GetDesiredComposedResources := (\<lambda>req. Inl ''cannot unmarshal'')\<rparr>"

text \<open>
  The resources of a response carry, under the name, the wire form of a desired composed
  resource; and the wire form of the converted form of an object.
\<close>

definition carries ::
  "('o, 'w, 'xr, 'u) sdk \<Rightarrow> (string \<rightharpoonup> 'w) \<Rightarrow> string \<Rightarrow> 'u DesiredComposed \<Rightarrow> bool" where
  "carries k resources name dcd =
     (case AsStruct k dcd of Inl err \<Rightarrow> False | Inr w \<Rightarrow> resources name = Some w)"

definition carries_unit ::
  "('o, 'w, 'xr, 'u) sdk \<Rightarrow> (string \<rightharpoonup> 'w) \<Rightarrow> string \<Rightarrow> object \<Rightarrow> bool" where
  "carries_unit k resources name obj =
     (case From k obj of
        Inl err \<Rightarrow> False
      | Inr u \<Rightarrow> carries k resources name (DesiredComposed u))"

section \<open>Properties\<close>

subsection \<open>The names\<close>

declare FormatUint.simps [simp del]

lemma digit_cases: "n < 10 \<Longrightarrow> n \<in> {0, 1, 2, 3, 4, 5, 6, 7, 8, 9 :: nat}"
  by (simp, arith)

lemma of_char_digit: "n < 10 \<Longrightarrow> (of_char (digit n) :: nat) = 48 + n"
  by (drule digit_cases) (auto simp: digit_def)

lemma ParseUint_FormatUint: "ParseUint (FormatUint n) = n"
proof (induction n rule: FormatUint.induct)
  case (1 n)
  show ?case
  proof (cases "n < 10")
    case True
    then show ?thesis
      by (simp add: FormatUint.simps [of n] ParseUint_def of_char_digit)
  next
    case False
    with 1 have "ParseUint (FormatUint (n div 10)) = n div 10"
      by simp
    with False show ?thesis
      by (simp add: FormatUint.simps [of n] ParseUint_def of_char_digit)
  qed
qed

lemma FormatUint_inj: "FormatUint n = FormatUint m \<Longrightarrow> n = m"
  by (metis ParseUint_FormatUint)

lemma digit_not_minus: "n < 10 \<Longrightarrow> digit n \<noteq> CHR ''-''"
  by (drule digit_cases) (auto simp: digit_def)

lemma minus_notin_FormatUint: "CHR ''-'' \<notin> set (FormatUint n)"
proof (induction n rule: FormatUint.induct)
  case (1 n)
  show ?case
  proof (cases "n < 10")
    case True
    then show ?thesis
      using digit_not_minus [of n] by (auto simp: FormatUint.simps [of n])
  next
    case False
    with 1 have "CHR ''-'' \<notin> set (FormatUint (n div 10))"
      by simp
    with False show ?thesis
      using digit_not_minus [of "n mod 10"] by (auto simp: FormatUint.simps [of n])
  qed
qed

lemma FormatUint_not_Nil: "FormatUint n \<noteq> []"
  by (subst FormatUint.simps) simp

lemma Sprintf_d_inj: "Sprintf_d i = Sprintf_d j \<Longrightarrow> i = j"
proof -
  assume eq: "Sprintf_d i = Sprintf_d j"
  show "i = j"
  proof (cases "i < 0")
    case True
    show ?thesis
    proof (cases "j < 0")
      case True
      with \<open>i < 0\<close> eq have "nat (- i) = nat (- j)"
        by (simp add: Sprintf_d_def FormatUint_inj)
      with True \<open>i < 0\<close> show ?thesis by simp
    next
      case False
      with \<open>i < 0\<close> eq have "CHR ''-'' # FormatUint (nat (- i)) = FormatUint (nat j)"
        by (simp add: Sprintf_d_def)
      then have "CHR ''-'' \<in> set (FormatUint (nat j))"
        by (metis list.set_intros(1))
      then show ?thesis
        by (simp add: minus_notin_FormatUint)
    qed
  next
    case False
    show ?thesis
    proof (cases "j < 0")
      case True
      with \<open>\<not> i < 0\<close> eq have "CHR ''-'' # FormatUint (nat (- j)) = FormatUint (nat i)"
        by (simp add: Sprintf_d_def)
      then have "CHR ''-'' \<in> set (FormatUint (nat i))"
        by (metis list.set_intros(1))
      then show ?thesis
        by (simp add: minus_notin_FormatUint)
    next
      case False
      with \<open>\<not> i < 0\<close> eq have "nat i = nat j"
        by (simp add: Sprintf_d_def FormatUint_inj)
      with False \<open>\<not> i < 0\<close> show ?thesis by simp
    qed
  qed
qed

lemma vpcName_inj: "vpcName a i = vpcName a j \<Longrightarrow> i = j"
  by (simp add: vpcName_def Sprintf_d_inj)

lemma gatewayName_inj: "gatewayName a i = gatewayName a j \<Longrightarrow> i = j"
  by (simp add: gatewayName_def Sprintf_d_inj)

lemma vpcName_neq_gatewayName: "vpcName a i \<noteq> gatewayName b j"
  by (simp add: vpcName_def gatewayName_def)

lemma gatewayName_neq_vpcName: "gatewayName b j \<noteq> vpcName a i"
  by (simp add: vpcName_def gatewayName_def)

subsection \<open>The replica loop\<close>

lemma names_step: "i < j \<Longrightarrow> names a g i j = names a g i (i + 1) \<union> names a g (i + 1) j"
proof -
  assume "i < j"
  then have "{i..<j} = {i..<i + 1} \<union> {i + 1..<j}"
    by auto
  then show ?thesis
    unfolding names_def by (simp only: image_Un) auto
qed

lemma names_empty: "\<not> i < j \<Longrightarrow> names a g i j = {}"
  by (simp add: names_def)

lemma names_single: "names a g i (i + 1) = insert (vpcName a i) (if g then {gatewayName a i} else {})"
proof -
  have "{i..<i + 1} = {i}" by auto
  then show ?thesis by (simp add: names_def)
qed

lemma replica_frame:
  "n \<notin> names a g i (i + 1) \<Longrightarrow> fst (replica k a g r p i d) n = d n"
  by (auto simp: replica_def names_single Let_def split: sum.splits if_splits)

lemma replica_dom: "dom d \<subseteq> dom (fst (replica k a g r p i d))"
  by (auto simp: replica_def Let_def split: sum.splits if_splits)

lemma replica_ok_iff: "snd (replica k a g r p i d) = None \<longleftrightarrow> converts k a g r p i"
  by (auto simp: replica_def converts_def Let_def split: sum.splits)

lemma replica_holds_vpc:
  "\<not> isl (From k (VPCObject (vpc a r p i))) \<Longrightarrow>
   holds k (fst (replica k a g r p i d)) (vpcName a i) (VPCObject (vpc a r p i))"
  by (auto simp: replica_def holds_def Let_def vpcName_neq_gatewayName split: sum.splits)

lemma replica_holds_gateway:
  "converts k a g r p i \<Longrightarrow> g \<Longrightarrow>
   holds k (fst (replica k a g r p i d)) (gatewayName a i)
     (InternetGatewayObject (gateway a r p i))"
  by (auto simp: replica_def holds_def converts_def Let_def split: sum.splits)

lemma replicas_frame:
  "n \<notin> names a g i count \<Longrightarrow> fst (replicas k a g r p i count d) n = d n"
proof (induction k a g r p i count d rule: replicas.induct)
  case (1 k a g r p i count d)
  show ?case
  proof (cases "i < count")
    case False
    then show ?thesis by (simp add: replicas.simps)
  next
    case True
    obtain d1 e1 where body: "replica k a g r p i d = (d1, e1)"
      by (cases "replica k a g r p i d")
    from True "1.prems" have out: "n \<notin> names a g i (i + 1)" "n \<notin> names a g (i + 1) count"
      using names_step [of i count a g] by auto
    from out(1) body have d1: "d1 n = d n"
      using replica_frame [of n a g i k r p d] by simp
    show ?thesis
    proof (cases e1)
      case (Some err)
      with True body d1 show ?thesis
        by (simp add: replicas.simps [of k a g r p i])
    next
      case None
      with True body have "fst (replicas k a g r p (i + 1) count d1) n = d1 n"
        using "1.IH" out(2) by simp
      with True body None d1 show ?thesis
        by (simp add: replicas.simps [of k a g r p i])
    qed
  qed
qed

lemma replicas_dom: "dom d \<subseteq> dom (fst (replicas k a g r p i count d))"
proof (induction k a g r p i count d rule: replicas.induct)
  case (1 k a g r p i count d)
  show ?case
  proof (cases "i < count")
    case False
    then show ?thesis by (simp add: replicas.simps)
  next
    case True
    obtain d1 e1 where body: "replica k a g r p i d = (d1, e1)"
      by (cases "replica k a g r p i d")
    then have d1: "dom d \<subseteq> dom d1"
      using replica_dom [of d k a g r p i] by simp
    show ?thesis
    proof (cases e1)
      case (Some err)
      with True body d1 show ?thesis
        by (simp add: replicas.simps [of k a g r p i])
    next
      case None
      with True body have "dom d1 \<subseteq> dom (fst (replicas k a g r p (i + 1) count d1))"
        using "1.IH" by simp
      with True body None d1 show ?thesis
        by (auto simp: replicas.simps [of k a g r p i])
    qed
  qed
qed

lemma replicas_ok_iff:
  "snd (replicas k a g r p i count d) = None \<longleftrightarrow>
   (\<forall>j. i \<le> j \<and> j < count \<longrightarrow> converts k a g r p j)"
proof (induction k a g r p i count d rule: replicas.induct)
  case (1 k a g r p i count d)
  show ?case
  proof (cases "i < count")
    case False
    then show ?thesis by (auto simp: replicas.simps)
  next
    case True
    obtain d1 e1 where body: "replica k a g r p i d = (d1, e1)"
      by (cases "replica k a g r p i d")
    show ?thesis
    proof (cases e1)
      case (Some err)
      with body have "\<not> converts k a g r p i"
        using replica_ok_iff [of k a g r p i d] by simp
      with True body Some show ?thesis
        by (auto simp: replicas.simps [of k a g r p i])
    next
      case None
      with body have here: "converts k a g r p i"
        using replica_ok_iff [of k a g r p i d] by simp
      from True body None
      have "snd (replicas k a g r p (i + 1) count d1) = None \<longleftrightarrow>
            (\<forall>j. i + 1 \<le> j \<and> j < count \<longrightarrow> converts k a g r p j)"
        using "1.IH" by simp
      moreover have "(\<forall>j. i + 1 \<le> j \<and> j < count \<longrightarrow> converts k a g r p j) \<longleftrightarrow>
            (\<forall>j. i \<le> j \<and> j < count \<longrightarrow> converts k a g r p j)"
        using here by (metis add1_zle_eq order_le_less)
      ultimately show ?thesis
        using True body None by (simp add: replicas.simps [of k a g r p i])
    qed
  qed
qed

lemma replicas_append:
  "i \<le> j \<Longrightarrow> j \<le> count \<Longrightarrow> snd (replicas k a g r p i j d) = None \<Longrightarrow>
   replicas k a g r p i count d = replicas k a g r p j count (fst (replicas k a g r p i j d))"
proof (induction k a g r p i j d rule: replicas.induct)
  case (1 k a g r p i j d)
  show ?case
  proof (cases "i < j")
    case False
    with "1.prems" have "i = j" by simp
    then show ?thesis by (simp add: replicas.simps [of k a g r p j j])
  next
    case True
    obtain d1 e1 where body: "replica k a g r p i d = (d1, e1)"
      by (cases "replica k a g r p i d")
    from True "1.prems" body have e1: "e1 = None"
      by (cases e1) (simp_all add: replicas.simps [of k a g r p i j])
    from True body e1 have unfold_j:
      "replicas k a g r p i j d = replicas k a g r p (i + 1) j d1"
      by (simp add: replicas.simps [of k a g r p i j])
    from True "1.prems" body e1 have unfold_count:
      "replicas k a g r p i count d = replicas k a g r p (i + 1) count d1"
      by (simp add: replicas.simps [of k a g r p i count])
    from "1.prems" unfold_j have okrec: "snd (replicas k a g r p (i + 1) j d1) = None"
      by simp
    from True have "i + 1 \<le> j" by simp
    with True body e1 "1.prems" okrec
    have "replicas k a g r p (i + 1) count d1 =
          replicas k a g r p j count (fst (replicas k a g r p (i + 1) j d1))"
      using "1.IH" by simp
    with unfold_j unfold_count show ?thesis by simp
  qed
qed

lemma replicas_holds_vpc:
  "snd (replicas k a g r p i count d) = None \<Longrightarrow> i \<le> j \<Longrightarrow> j < count \<Longrightarrow>
   holds k (fst (replicas k a g r p i count d)) (vpcName a j) (VPCObject (vpc a r p j))"
proof -
  assume ok: "snd (replicas k a g r p i count d) = None" and ij: "i \<le> j" and jc: "j < count"
  let ?dj = "fst (replicas k a g r p i j d)"
  from ok have all: "\<forall>l. i \<le> l \<and> l < count \<longrightarrow> converts k a g r p l"
    by (simp add: replicas_ok_iff)
  with jc have okj: "snd (replicas k a g r p i j d) = None"
    by (simp add: replicas_ok_iff)
  from all ij jc have cj: "converts k a g r p j" by simp
  then obtain dj1 where body: "replica k a g r p j ?dj = (dj1, None)"
    using replica_ok_iff [of k a g r p j ?dj] by (cases "replica k a g r p j ?dj") simp
  from ij jc okj have "replicas k a g r p i count d = replicas k a g r p j count ?dj"
    using replicas_append [of i j count k a g r p d] by simp
  also from jc body have "\<dots> = replicas k a g r p (j + 1) count dj1"
    by (simp add: replicas.simps [of k a g r p j count])
  finally have final: "fst (replicas k a g r p i count d) = fst (replicas k a g r p (j + 1) count dj1)"
    by simp
  have "vpcName a j \<notin> names a g (j + 1) count"
    by (auto simp: names_def vpcName_neq_gatewayName dest: vpcName_inj)
  then have "fst (replicas k a g r p (j + 1) count dj1) (vpcName a j) = dj1 (vpcName a j)"
    by (rule replicas_frame)
  moreover from cj body have "holds k dj1 (vpcName a j) (VPCObject (vpc a r p j))"
    using replica_holds_vpc [of k a r p j g ?dj] by (simp add: converts_def)
  ultimately show ?thesis
    using final by (simp add: holds_def split: sum.splits)
qed

lemma replicas_holds_gateway:
  "snd (replicas k a g r p i count d) = None \<Longrightarrow> i \<le> j \<Longrightarrow> j < count \<Longrightarrow> g \<Longrightarrow>
   holds k (fst (replicas k a g r p i count d)) (gatewayName a j)
     (InternetGatewayObject (gateway a r p j))"
proof -
  assume ok: "snd (replicas k a g r p i count d) = None" and ij: "i \<le> j" and jc: "j < count"
    and g: g
  let ?dj = "fst (replicas k a g r p i j d)"
  from ok have all: "\<forall>l. i \<le> l \<and> l < count \<longrightarrow> converts k a g r p l"
    by (simp add: replicas_ok_iff)
  with jc have okj: "snd (replicas k a g r p i j d) = None"
    by (simp add: replicas_ok_iff)
  from all ij jc have cj: "converts k a g r p j" by simp
  then obtain dj1 where body: "replica k a g r p j ?dj = (dj1, None)"
    using replica_ok_iff [of k a g r p j ?dj] by (cases "replica k a g r p j ?dj") simp
  from ij jc okj have "replicas k a g r p i count d = replicas k a g r p j count ?dj"
    using replicas_append [of i j count k a g r p d] by simp
  also from jc body have "\<dots> = replicas k a g r p (j + 1) count dj1"
    by (simp add: replicas.simps [of k a g r p j count])
  finally have final: "fst (replicas k a g r p i count d) = fst (replicas k a g r p (j + 1) count dj1)"
    by simp
  have "gatewayName a j \<notin> names a g (j + 1) count"
    by (auto simp: names_def gatewayName_neq_vpcName dest: gatewayName_inj)
  then have "fst (replicas k a g r p (j + 1) count dj1) (gatewayName a j) = dj1 (gatewayName a j)"
    by (rule replicas_frame)
  moreover from cj g body
  have "holds k dj1 (gatewayName a j) (InternetGatewayObject (gateway a r p j))"
    using replica_holds_gateway [of k a g r p j ?dj] by simp
  ultimately show ?thesis
    using final by (simp add: holds_def split: sum.splits)
qed

subsection \<open>The outcomes of RunFunction\<close>

lemma RunFunction_no_composite:
  "GetObservedCompositeResource k req = Inl e \<Longrightarrow>
   RunFunction k req =
     \<lparr>out_rsp = response_Fatal (response_To req DefaultTTL) (Wrapf e ''cannot get desired XR''),
      out_err = None, out_desired = None\<rparr>"
  by (simp add: RunFunction_def)

lemma RunFunction_no_desired:
  "GetObservedCompositeResource k req = Inr oxr \<Longrightarrow>
   GetDesiredComposedResources k req = Inl e \<Longrightarrow>
   RunFunction k req =
     \<lparr>out_rsp = response_Fatal (response_To req DefaultTTL)
        (Wrapf e ''cannot get desired resources from *v1.RunFunctionRequest''),
      out_err = None, out_desired = None\<rparr>"
  by (simp add: RunFunction_def Let_def)

lemma RunFunction_loop:
  assumes "GetObservedCompositeResource k req = Inr oxr"
    and "GetDesiredComposedResources k req = Inr d0"
  shows "RunFunction k req =
     (case replicas k (spec_id k oxr) (spec_includeGateway k oxr) (spec_region k oxr)
             (spec_providerConfigName k oxr) 0 (spec_count k oxr) d0 of
        (desired, Some err) \<Rightarrow>
          \<lparr>out_rsp = response_Fatal (response_To req DefaultTTL) err,
           out_err = None, out_desired = Some desired\<rparr>
      | (desired, None) \<Rightarrow>
          (case SetDesiredComposedResources k (req_Desired req) desired of
             (resources, Some err) \<Rightarrow>
               \<lparr>out_rsp = response_Fatal (response_To req DefaultTTL\<lparr>rsp_Desired := resources\<rparr>)
                  (Wrapf err ''cannot set desired composed resources in *v1.RunFunctionResponse''),
                out_err = None, out_desired = Some desired\<rparr>
           | (resources, None) \<Rightarrow>
               \<lparr>out_rsp = response_To req DefaultTTL\<lparr>rsp_Desired := resources\<rparr>,
                out_err = None, out_desired = Some desired\<rparr>))"
  using assms
  by (simp add: RunFunction_def Let_def spec_id_def spec_count_def spec_includeGateway_def
      spec_region_def spec_providerConfigName_def response_To_def)

lemma is_fatal_To [simp]: "\<not> is_fatal (response_To req ttl)"
  by (simp add: is_fatal_def response_To_def)

lemma is_fatal_To_Desired [simp]: "\<not> is_fatal (response_To req ttl\<lparr>rsp_Desired := m\<rparr>)"
  by (simp add: is_fatal_def response_To_def)

lemma is_fatal_Fatal [simp]: "is_fatal (response_Fatal rsp e)"
  by (simp add: is_fatal_def response_Fatal_def)

lemma RunFunction_out_desired:
  assumes "GetObservedCompositeResource k req = Inr oxr"
    and "GetDesiredComposedResources k req = Inr d0"
  shows "out_desired (RunFunction k req) =
     Some (fst (replicas k (spec_id k oxr) (spec_includeGateway k oxr) (spec_region k oxr)
             (spec_providerConfigName k oxr) 0 (spec_count k oxr) d0))"
  by (simp add: RunFunction_loop [OF assms] split: prod.splits option.splits)

lemma RunFunction_fatal_iff:
  assumes "GetObservedCompositeResource k req = Inr oxr"
    and "GetDesiredComposedResources k req = Inr d0"
  shows "is_fatal (out_rsp (RunFunction k req)) \<longleftrightarrow>
     snd (replicas k (spec_id k oxr) (spec_includeGateway k oxr) (spec_region k oxr)
             (spec_providerConfigName k oxr) 0 (spec_count k oxr) d0) \<noteq> None \<or>
     snd (SetDesiredComposedResources k (req_Desired req)
       (fst (replicas k (spec_id k oxr) (spec_includeGateway k oxr) (spec_region k oxr)
             (spec_providerConfigName k oxr) 0 (spec_count k oxr) d0))) \<noteq> None"
  by (auto simp: RunFunction_loop [OF assms] split: prod.splits option.splits)

lemma RunFunction_out_err: "out_err (RunFunction k req) = None"
proof (cases "GetObservedCompositeResource k req")
  case (Inl e)
  then show ?thesis by (simp add: RunFunction_no_composite)
next
  case obs: (Inr oxr)
  show ?thesis
  proof (cases "GetDesiredComposedResources k req")
    case (Inl e)
    with obs show ?thesis by (simp add: RunFunction_no_desired)
  next
    case (Inr d0)
    with obs show ?thesis
      by (simp add: RunFunction_loop split: prod.splits option.splits)
  qed
qed

subsection \<open>More about the loop\<close>

lemma vpcName_notin_later: "vpcName a j \<notin> names a g (j + 1) count"
  by (auto simp: names_def vpcName_neq_gatewayName dest: vpcName_inj)

lemma gatewayName_notin_later: "gatewayName a j \<notin> names a g (j + 1) count"
  by (auto simp: names_def gatewayName_neq_vpcName dest: gatewayName_inj)

lemma holds_eq: "d' n = d n \<Longrightarrow> holds k d n obj \<Longrightarrow> holds k d' n obj"
  by (simp add: holds_def split: sum.splits)

lemma holds_dom: "holds k d n obj \<Longrightarrow> n \<in> dom d"
  by (auto simp: holds_def split: sum.splits)

lemma replicas_holds_prefix_vpc:
  assumes "i \<le> j" and "j < count" and "\<forall>l. i \<le> l \<and> l \<le> j \<longrightarrow> converts k a g r p l"
  shows "holds k (fst (replicas k a g r p i count d)) (vpcName a j) (VPCObject (vpc a r p j))"
proof -
  let ?d1 = "fst (replicas k a g r p i (j + 1) d)"
  from assms(3) have ok: "snd (replicas k a g r p i (j + 1) d) = None"
    by (simp add: replicas_ok_iff)
  from assms(1,2) ok have "replicas k a g r p i count d = replicas k a g r p (j + 1) count ?d1"
    using replicas_append [of i "j + 1" count k a g r p d] by simp
  then have "fst (replicas k a g r p i count d) (vpcName a j) = ?d1 (vpcName a j)"
    by (simp add: replicas_frame vpcName_notin_later)
  moreover from ok assms(1) have "holds k ?d1 (vpcName a j) (VPCObject (vpc a r p j))"
    by (simp add: replicas_holds_vpc)
  ultimately show ?thesis
    by (rule holds_eq)
qed

lemma replicas_holds_prefix_gateway:
  assumes "i \<le> j" and "j < count" and "\<forall>l. i \<le> l \<and> l \<le> j \<longrightarrow> converts k a g r p l" and g
  shows "holds k (fst (replicas k a g r p i count d)) (gatewayName a j)
           (InternetGatewayObject (gateway a r p j))"
proof -
  let ?d1 = "fst (replicas k a g r p i (j + 1) d)"
  from assms(3) have ok: "snd (replicas k a g r p i (j + 1) d) = None"
    by (simp add: replicas_ok_iff)
  from assms(1,2) ok have "replicas k a g r p i count d = replicas k a g r p (j + 1) count ?d1"
    using replicas_append [of i "j + 1" count k a g r p d] by simp
  then have "fst (replicas k a g r p i count d) (gatewayName a j) = ?d1 (gatewayName a j)"
    by (simp add: replicas_frame gatewayName_notin_later)
  moreover from ok assms(1) \<open>g\<close>
  have "holds k ?d1 (gatewayName a j) (InternetGatewayObject (gateway a r p j))"
    by (simp add: replicas_holds_gateway)
  ultimately show ?thesis
    by (rule holds_eq)
qed

lemma replicas_abort:
  assumes "i \<le> j" and "j < count" and "\<forall>l. i \<le> l \<and> l < j \<longrightarrow> converts k a g r p l"
    and "\<not> converts k a g r p j"
  shows "replicas k a g r p i count d = replica k a g r p j (fst (replicas k a g r p i j d))"
proof -
  let ?dj = "fst (replicas k a g r p i j d)"
  from assms(3) have ok: "snd (replicas k a g r p i j d) = None"
    by (simp add: replicas_ok_iff)
  obtain d' e where body: "replica k a g r p j ?dj = (d', e)"
    by (cases "replica k a g r p j ?dj")
  with assms(4) obtain err where e: "e = Some err"
    using replica_ok_iff [of k a g r p j ?dj] by (cases e) simp_all
  from assms(1,2) ok have "replicas k a g r p i count d = replicas k a g r p j count ?dj"
    using replicas_append [of i j count k a g r p d] by simp
  also from assms(2) body e have "\<dots> = (d', e)"
    by (simp add: replicas.simps [of k a g r p j count])
  finally show ?thesis
    using body by simp
qed

lemma replica_vpc_fails:
  "From k (VPCObject (vpc a r p i)) = Inl e \<Longrightarrow>
   replica k a g r p i d =
     (d, Some (Wrapf e ''cannot convert *v1beta1.VPC to *composed.Unstructured''))"
  by (simp add: replica_def)

lemma replica_gateway_fails:
  "From k (VPCObject (vpc a r p i)) = Inr u \<Longrightarrow> g \<Longrightarrow>
   From k (InternetGatewayObject (gateway a r p i)) = Inl e \<Longrightarrow>
   replica k a g r p i d =
     (d(vpcName a i \<mapsto> DesiredComposed u),
      Some (Wrapf e ''cannot convert *v1beta1.InternetGateway to *composed.Unstructured''))"
  by (simp add: replica_def)

lemma replicas_dom_eq:
  assumes "snd (replicas k a g r p i count d) = None"
  shows "dom (fst (replicas k a g r p i count d)) = dom d \<union> names a g i count"
proof (intro equalityI subsetI)
  fix n
  assume n: "n \<in> dom (fst (replicas k a g r p i count d))"
  show "n \<in> dom d \<union> names a g i count"
  proof (cases "n \<in> names a g i count")
    case False
    then have "fst (replicas k a g r p i count d) n = d n"
      by (rule replicas_frame)
    with n show ?thesis by (auto simp: dom_def)
  qed simp
next
  fix n
  assume "n \<in> dom d \<union> names a g i count"
  then consider "n \<in> dom d" | j where "i \<le> j" "j < count" "n = vpcName a j"
    | j where "i \<le> j" "j < count" "g" "n = gatewayName a j"
    by (auto simp: names_def split: if_splits)
  then show "n \<in> dom (fst (replicas k a g r p i count d))"
  proof cases
    case 1
    then show ?thesis using replicas_dom [of d k a g r p i count] by blast
  next
    case 2
    with assms show ?thesis
      using holds_dom [OF replicas_holds_vpc [of k a g r p i count d j]] by simp
  next
    case 3
    with assms show ?thesis
      using holds_dom [OF replicas_holds_gateway [of k a g r p i count d j]] by simp
  qed
qed

lemma card_vpcNames: "card (vpcName a ` {0..<c}) = nat c"
proof -
  have "inj_on (vpcName a) {0..<c}"
    by (rule inj_onI) (rule vpcName_inj)
  then show ?thesis
    by (simp add: card_image)
qed

lemma card_gatewayNames: "card (gatewayName a ` {0..<c}) = nat c"
proof -
  have "inj_on (gatewayName a) {0..<c}"
    by (rule inj_onI) (rule gatewayName_inj)
  then show ?thesis
    by (simp add: card_image)
qed

lemma names_disjoint: "vpcName a ` I \<inter> gatewayName b ` J = {}"
  by (auto simp: vpcName_neq_gatewayName)

subsection \<open>The concrete SDK\<close>

lemma fixture_observed [simp]:
  "GetObservedCompositeResource (fixture bad wfail) (request (Some xr) d) = Inr xr"
  "GetObservedCompositeResource (fixture bad wfail) (request None d) = Inl ''no composite resource''"
  by (simp_all add: fixture_def request_def)

lemma fixture_desired [simp]:
  "GetDesiredComposedResources (fixture bad wfail) (request xr d) =
     Inr (map_option DesiredComposed \<circ> d)"
  by (simp add: fixture_def request_def)

lemma request_sel [simp]:
  "req_Tag (request xr d) = ''tag''"
  "req_Observed (request xr d) = xr"
  "req_Desired (request xr d) = d"
  by (simp_all add: request_def)

lemma fixture_From [simp]:
  "From (fixture bad wfail) obj = (if bad obj then Inl ''no kind registered'' else Inr obj)"
  by (simp add: fixture_def)

lemma fixture_AsStruct [simp]:
  "AsStruct (fixture bad wfail) dcd =
     (if wfail then Inl ''cannot marshal'' else Inr (Resource dcd))"
  by (simp add: fixture_def)

lemma fixture_Set [simp]:
  "SetDesiredComposedResources (fixture bad False) res d =
     (\<lambda>name. case d name of None \<Rightarrow> res name | Some dc \<Rightarrow> Some (Resource dc), None)"
  "d n = Some dcd \<Longrightarrow>
   SetDesiredComposedResources (fixture bad True) res d = (res, Some ''cannot marshal'')"
proof -
  show "SetDesiredComposedResources (fixture bad False) res d =
     (\<lambda>name. case d name of None \<Rightarrow> res name | Some dc \<Rightarrow> Some (Resource dc), None)"
    by (auto simp: SetDesiredComposedResources_def fun_eq_iff split: option.splits)
  assume "d n = Some dcd"
  then have "dcd \<in> ran d"
    by (rule ranI)
  then have "\<not> (\<forall>dcd\<in>ran d. \<not> isl (AsStruct (fixture bad True) dcd))"
    by auto
  then show "SetDesiredComposedResources (fixture bad True) res d = (res, Some ''cannot marshal'')"
    by (simp add: SetDesiredComposedResources_def fixture_def)
qed

lemma spec_xr_code [simp]:
  "spec_id (fixture bad wfail) xr_code = ''code''"
  "spec_count (fixture bad wfail) xr_code = 1"
  "spec_includeGateway (fixture bad wfail) xr_code = True"
  "spec_region (fixture bad wfail) xr_code = ''eu-central-1''"
  "spec_providerConfigName (fixture bad wfail) xr_code = ''default''"
  by (simp_all add: spec_id_def spec_count_def spec_includeGateway_def spec_region_def
      spec_providerConfigName_def fixture_def xr_code_def field_GetString_def
      field_GetInteger_def field_GetBool_def)

lemma spec_xr_net [simp]:
  "spec_id (fixture bad wfail) xr_net = ''net''"
  "spec_count (fixture bad wfail) xr_net = 2"
  "spec_includeGateway (fixture bad wfail) xr_net = True"
  "spec_region (fixture bad wfail) xr_net = ''eu-central-1''"
  "spec_providerConfigName (fixture bad wfail) xr_net = ''default''"
  "fst (GetString (fixture bad wfail) xr_net ''spec.region'') = ''''"
  "fst (GetString (fixture bad wfail) xr_net ''spec.providerConfigName'') = ''''"
  by (simp_all add: spec_id_def spec_count_def spec_includeGateway_def spec_region_def
      spec_providerConfigName_def fixture_def xr_net_def field_GetString_def
      field_GetInteger_def field_GetBool_def)

lemma spec_xr_none [simp]:
  "spec_id (fixture bad wfail) xr_none = ''none''"
  "spec_count (fixture bad wfail) xr_none = 0"
  "spec_includeGateway (fixture bad wfail) xr_none = False"
  by (simp_all add: spec_id_def spec_count_def spec_includeGateway_def
      fixture_def xr_none_def field_GetString_def
      field_GetInteger_def field_GetBool_def)

lemma converts_no_object [simp]: "converts (fixture no_object wfail) a g r p l"
  by (simp add: converts_def no_object_def)

lemma names_literal:
  "vpcName ''code'' 0 = ''vpc-code-0''"
  "gatewayName ''code'' 0 = ''gateway-code-0''"
  "vpcName ''net'' 0 = ''vpc-net-0''"
  "vpcName ''net'' 1 = ''vpc-net-1''"
  "gatewayName ''net'' 0 = ''gateway-net-0''"
  "gatewayName ''net'' 1 = ''gateway-net-1''"
  by (simp_all add: vpcName_def gatewayName_def Sprintf_d_def FormatUint.simps digit_def)

lemma loop_code:
  "replicas (fixture no_object wfail) ''code'' True r p 0 1 d =
     (d(vpcName ''code'' 0 \<mapsto> DesiredComposed (VPCObject (vpc ''code'' r p 0)),
        gatewayName ''code'' 0 \<mapsto>
          DesiredComposed (InternetGatewayObject (gateway ''code'' r p 0))), None)"
  by (simp add: replicas.simps replica_def no_object_def)

lemma loop_net:
  "replicas (fixture no_object wfail) ''net'' True r p 0 2 d =
     (d(vpcName ''net'' 0 \<mapsto> DesiredComposed (VPCObject (vpc ''net'' r p 0)),
        gatewayName ''net'' 0 \<mapsto>
          DesiredComposed (InternetGatewayObject (gateway ''net'' r p 0)),
        vpcName ''net'' 1 \<mapsto> DesiredComposed (VPCObject (vpc ''net'' r p 1)),
        gatewayName ''net'' 1 \<mapsto>
          DesiredComposed (InternetGatewayObject (gateway ''net'' r p 1))), None)"
  by (simp add: replicas.simps replica_def no_object_def)

lemma run_code:
  "RunFunction (fixture no_object False) (request (Some xr_code) d) =
     \<lparr>out_rsp =
        \<lparr>rsp_Tag = ''tag'', rsp_Ttl = 60000000000,
         rsp_Desired =
           d(''vpc-code-0'' \<mapsto> VPCObject (vpc ''code'' ''eu-central-1'' ''default'' 0),
             ''gateway-code-0'' \<mapsto>
               InternetGatewayObject (gateway ''code'' ''eu-central-1'' ''default'' 0)),
         rsp_Results = []\<rparr>,
      out_err = None,
      out_desired =
        Some ((map_option DesiredComposed \<circ> d)
          (''vpc-code-0'' \<mapsto>
             DesiredComposed (VPCObject (vpc ''code'' ''eu-central-1'' ''default'' 0)),
           ''gateway-code-0'' \<mapsto>
             DesiredComposed
               (InternetGatewayObject (gateway ''code'' ''eu-central-1'' ''default'' 0))))\<rparr>"
  using RunFunction_loop [of "fixture no_object False" "request (Some xr_code) d" xr_code
      "map_option DesiredComposed \<circ> d"]
  by (auto simp: loop_code names_literal response_To_def DefaultTTL_def Minute_def Second_def
      fun_eq_iff split: option.splits)

lemma RunFunction_holds:
  assumes obs: "GetObservedCompositeResource k req = Inr oxr"
    and des: "GetDesiredComposedResources k req = Inr d0"
    and i: "0 \<le> i" "i < spec_count k oxr"
    and conv: "\<forall>l. 0 \<le> l \<and> l \<le> i \<longrightarrow>
      converts k (spec_id k oxr) (spec_includeGateway k oxr) (spec_region k oxr)
        (spec_providerConfigName k oxr) l"
  shows "\<exists>d'. out_desired (RunFunction k req) = Some d' \<and>
     holds k d' (vpcName (spec_id k oxr) i)
       (VPCObject (vpc (spec_id k oxr) (spec_region k oxr) (spec_providerConfigName k oxr) i)) \<and>
     (spec_includeGateway k oxr \<longrightarrow>
        holds k d' (gatewayName (spec_id k oxr) i)
          (InternetGatewayObject
             (gateway (spec_id k oxr) (spec_region k oxr) (spec_providerConfigName k oxr) i)))"
  using RunFunction_out_desired [OF obs des] i conv
  by (auto intro!: replicas_holds_prefix_vpc replicas_holds_prefix_gateway)

lemma ParseUint_Sprintf_d: "0 \<le> i \<Longrightarrow> ParseUint (Sprintf_d i) = nat i"
  by (simp add: Sprintf_d_def ParseUint_FormatUint)

lemma desired_net:
  "out_desired (RunFunction (fixture no_object wfail) (request (Some xr_net) d)) =
     Some ((map_option DesiredComposed \<circ> d)
       (''vpc-net-0'' \<mapsto>
          DesiredComposed (VPCObject (vpc ''net'' ''eu-central-1'' ''default'' 0)),
        ''gateway-net-0'' \<mapsto>
          DesiredComposed (InternetGatewayObject (gateway ''net'' ''eu-central-1'' ''default'' 0)),
        ''vpc-net-1'' \<mapsto>
          DesiredComposed (VPCObject (vpc ''net'' ''eu-central-1'' ''default'' 1)),
        ''gateway-net-1'' \<mapsto>
          DesiredComposed (InternetGatewayObject (gateway ''net'' ''eu-central-1'' ''default'' 1))))"
  using RunFunction_out_desired [of "fixture no_object wfail" "request (Some xr_net) d" xr_net
      "map_option DesiredComposed \<circ> d"]
  by (simp add: loop_net names_literal)

lemma replicas_abort_vpc:
  assumes "i \<le> j" and "j < count" and "\<forall>l. i \<le> l \<and> l < j \<longrightarrow> converts k a g r p l"
    and "From k (VPCObject (vpc a r p j)) = Inl e"
  shows "replicas k a g r p i count d =
     (fst (replicas k a g r p i j d),
      Some (Wrapf e ''cannot convert *v1beta1.VPC to *composed.Unstructured''))"
proof -
  from assms(4) have "\<not> converts k a g r p j"
    by (simp add: converts_def)
  with assms(1-3)
  have "replicas k a g r p i count d = replica k a g r p j (fst (replicas k a g r p i j d))"
    by (rule replicas_abort)
  with assms(4) show ?thesis
    by (simp add: replica_vpc_fails)
qed

lemma replicas_abort_gateway:
  assumes "i \<le> j" and "j < count" and "\<forall>l. i \<le> l \<and> l < j \<longrightarrow> converts k a g r p l"
    and "From k (VPCObject (vpc a r p j)) = Inr u" and g
    and "From k (InternetGatewayObject (gateway a r p j)) = Inl e"
  shows "replicas k a g r p i count d =
     ((fst (replicas k a g r p i j d))(vpcName a j \<mapsto> DesiredComposed u),
      Some (Wrapf e ''cannot convert *v1beta1.InternetGateway to *composed.Unstructured''))"
proof -
  from assms(5,6) have "\<not> converts k a g r p j"
    by (simp add: converts_def)
  with assms(1-3)
  have "replicas k a g r p i count d = replica k a g r p j (fst (replicas k a g r p i j d))"
    by (rule replicas_abort)
  with assms(4-6) show ?thesis
    by (simp add: replica_gateway_fails)
qed

lemma RunFunction_loop_failed:
  assumes "GetObservedCompositeResource k req = Inr oxr"
    and "GetDesiredComposedResources k req = Inr d0"
    and "replicas k (spec_id k oxr) (spec_includeGateway k oxr) (spec_region k oxr)
           (spec_providerConfigName k oxr) 0 (spec_count k oxr) d0 = (d', Some e)"
  shows "RunFunction k req =
     \<lparr>out_rsp = response_Fatal (response_To req DefaultTTL) e,
      out_err = None, out_desired = Some d'\<rparr>"
  using assms(3) by (simp add: RunFunction_loop [OF assms(1,2)])

lemma vpcName_notin_earlier: "vpcName a j \<notin> names a g i j"
  by (auto simp: names_def vpcName_neq_gatewayName dest: vpcName_inj)

lemma gatewayName_notin_earlier: "gatewayName a j \<notin> names a g i j"
  by (auto simp: names_def gatewayName_neq_vpcName dest: gatewayName_inj)

lemma later_notin_names: "j < l \<Longrightarrow> vpcName a l \<notin> names a g i j \<and> gatewayName a l \<notin> names a g i j"
  by (auto simp: names_def vpcName_neq_gatewayName gatewayName_neq_vpcName
      dest: vpcName_inj gatewayName_inj)

text \<open>
  The map the loop leaves when the body at index \<open>i\<close> aborts, for either of the two maps
  the body can leave: with the VPC of replica \<open>i\<close> stored, or without it.
\<close>

lemma aborted_map:
  assumes ok: "snd (replicas k a g r p 0 i d0) = None"
    and d': "d' = fst (replicas k a g r p 0 i d0) \<or>
             d' = (fst (replicas k a g r p 0 i d0))(vpcName a i \<mapsto> x)"
  shows "(\<forall>l. 0 \<le> l \<and> l < i \<longrightarrow>
            holds k d' (vpcName a l) (VPCObject (vpc a r p l)) \<and>
            (g \<longrightarrow> holds k d' (gatewayName a l) (InternetGatewayObject (gateway a r p l)))) \<and>
         d' (gatewayName a i) = d0 (gatewayName a i) \<and>
         (\<forall>l. i < l \<longrightarrow> d' (vpcName a l) = d0 (vpcName a l) \<and>
            d' (gatewayName a l) = d0 (gatewayName a l)) \<and>
         (\<forall>n. n \<notin> names a g 0 i \<and> n \<noteq> vpcName a i \<longrightarrow> d' n = d0 n)"
proof -
  let ?di = "fst (replicas k a g r p 0 i d0)"
  have same: "n \<noteq> vpcName a i \<Longrightarrow> d' n = ?di n" for n
    using d' by auto
  have frame: "n \<notin> names a g 0 i \<Longrightarrow> ?di n = d0 n" for n
    by (rule replicas_frame)
  have "holds k d' (vpcName a l) (VPCObject (vpc a r p l))" if "0 \<le> l" "l < i" for l
  proof -
    from that have "vpcName a l \<noteq> vpcName a i"
      by (auto dest: vpcName_inj)
    then have "d' (vpcName a l) = ?di (vpcName a l)"
      by (rule same)
    moreover from ok that have "holds k ?di (vpcName a l) (VPCObject (vpc a r p l))"
      by (rule replicas_holds_vpc)
    ultimately show ?thesis
      by (rule holds_eq)
  qed
  moreover
  have "holds k d' (gatewayName a l) (InternetGatewayObject (gateway a r p l))"
    if "0 \<le> l" "l < i" g for l
  proof -
    have "d' (gatewayName a l) = ?di (gatewayName a l)"
      by (rule same) (rule gatewayName_neq_vpcName)
    moreover from ok that
    have "holds k ?di (gatewayName a l) (InternetGatewayObject (gateway a r p l))"
      by (rule replicas_holds_gateway)
    ultimately show ?thesis
      by (rule holds_eq)
  qed
  moreover have "d' (gatewayName a i) = d0 (gatewayName a i)"
    using same [of "gatewayName a i"] frame [of "gatewayName a i"]
    by (simp add: gatewayName_neq_vpcName gatewayName_notin_earlier)
  moreover
  have "d' (vpcName a l) = d0 (vpcName a l) \<and> d' (gatewayName a l) = d0 (gatewayName a l)"
    if "i < l" for l
  proof -
    from that have "vpcName a l \<noteq> vpcName a i"
      by (auto dest: vpcName_inj)
    with that show ?thesis
      using same [of "vpcName a l"] same [of "gatewayName a l"]
        frame [of "vpcName a l"] frame [of "gatewayName a l"] later_notin_names [of i l a g 0]
      by (simp add: gatewayName_neq_vpcName)
  qed
  moreover have "d' n = d0 n" if "n \<notin> names a g 0 i \<and> n \<noteq> vpcName a i" for n
    using that same [of n] frame [of n] by simp
  ultimately show ?thesis
    by blast
qed

lemma bad_gateway_net_1:
  "From (fixture (object_named ''gateway-net-1'') wfail)
     (VPCObject (vpc ''net'' r p 0)) = Inr (VPCObject (vpc ''net'' r p 0))"
  "From (fixture (object_named ''gateway-net-1'') wfail)
     (VPCObject (vpc ''net'' r p 1)) = Inr (VPCObject (vpc ''net'' r p 1))"
  "From (fixture (object_named ''gateway-net-1'') wfail)
     (InternetGatewayObject (gateway ''net'' r p 0)) =
     Inr (InternetGatewayObject (gateway ''net'' r p 0))"
  "From (fixture (object_named ''gateway-net-1'') wfail)
     (InternetGatewayObject (gateway ''net'' r p 1)) = Inl ''no kind registered''"
  by (simp_all add: object_named_def vpc_def gateway_def names_literal)

lemma RunFunction_written:
  assumes "GetObservedCompositeResource k req = Inr oxr"
    and "GetDesiredComposedResources k req = Inr d0"
    and "replicas k (spec_id k oxr) (spec_includeGateway k oxr) (spec_region k oxr)
           (spec_providerConfigName k oxr) 0 (spec_count k oxr) d0 = (d', None)"
    and "snd (SetDesiredComposedResources k (req_Desired req) d') = None"
  shows "RunFunction k req =
     \<lparr>out_rsp = response_To req DefaultTTL
        \<lparr>rsp_Desired := fst (SetDesiredComposedResources k (req_Desired req) d')\<rparr>,
      out_err = None, out_desired = Some d'\<rparr>"
  using assms(3,4)
  by (cases "SetDesiredComposedResources k (req_Desired req) d'")
    (simp add: RunFunction_loop [OF assms(1,2)])

lemma RunFunction_not_written:
  assumes "GetObservedCompositeResource k req = Inr oxr"
    and "GetDesiredComposedResources k req = Inr d0"
    and "replicas k (spec_id k oxr) (spec_includeGateway k oxr) (spec_region k oxr)
           (spec_providerConfigName k oxr) 0 (spec_count k oxr) d0 = (d', None)"
    and "snd (SetDesiredComposedResources k (req_Desired req) d') = Some e"
  shows "RunFunction k req =
     \<lparr>out_rsp = response_Fatal
        (response_To req DefaultTTL
           \<lparr>rsp_Desired := fst (SetDesiredComposedResources k (req_Desired req) d')\<rparr>)
        (Wrapf e ''cannot set desired composed resources in *v1.RunFunctionResponse''),
      out_err = None, out_desired = Some d'\<rparr>"
  using assms(3,4)
  by (cases "SetDesiredComposedResources k (req_Desired req) d'")
    (simp add: RunFunction_loop [OF assms(1,2)])

lemma other_neq_generated:
  "other \<noteq> VPCObject (vpc ''code'' ''eu-central-1'' ''default'' 0)"
proof
  assume "other = VPCObject (vpc ''code'' ''eu-central-1'' ''default'' 0)"
  then have "Name (vpc_ObjectMeta (vpc ''other'' ''us-east-1'' ''aws'' 7)) =
      Name (vpc_ObjectMeta (vpc ''code'' ''eu-central-1'' ''default'' 0))"
    by (simp add: other_def)
  then show False
    by (simp add: vpc_def vpcName_def)
qed

lemma run_code_not_written:
  "RunFunction (fixture no_object True) (request (Some xr_code) d) =
     \<lparr>out_rsp =
        \<lparr>rsp_Tag = ''tag'', rsp_Ttl = 60000000000, rsp_Desired = d,
         rsp_Results =
           [\<lparr>res_Severity = SEVERITY_FATAL,
             res_Message =
               ''cannot set desired composed resources in *v1.RunFunctionResponse: cannot marshal''\<rparr>]\<rparr>,
      out_err = None,
      out_desired =
        Some ((map_option DesiredComposed \<circ> d)
          (''vpc-code-0'' \<mapsto>
             DesiredComposed (VPCObject (vpc ''code'' ''eu-central-1'' ''default'' 0)),
           ''gateway-code-0'' \<mapsto>
             DesiredComposed
               (InternetGatewayObject (gateway ''code'' ''eu-central-1'' ''default'' 0))))\<rparr>"
proof -
  let ?d' = "(map_option DesiredComposed \<circ> d)
     (''vpc-code-0'' \<mapsto>
        DesiredComposed (VPCObject (vpc ''code'' ''eu-central-1'' ''default'' 0)),
      ''gateway-code-0'' \<mapsto>
        DesiredComposed
          (InternetGatewayObject (gateway ''code'' ''eu-central-1'' ''default'' 0)))"
  have "?d' ''gateway-code-0'' =
      Some (DesiredComposed
        (InternetGatewayObject (gateway ''code'' ''eu-central-1'' ''default'' 0)))"
    by simp
  then have "SetDesiredComposedResources (fixture no_object True) d ?d' =
      (d, Some ''cannot marshal'')"
    by (rule fixture_Set(2))
  then show ?thesis
    using RunFunction_loop [of "fixture no_object True" "request (Some xr_code) d" xr_code
        "map_option DesiredComposed \<circ> d"]
    by (simp add: loop_code names_literal response_To_def response_Fatal_def Wrapf_def
        DefaultTTL_def Minute_def Second_def)
qed

subsection \<open>Writing the map into the response\<close>

lemma Set_ok_iff:
  "snd (SetDesiredComposedResources k res d) = None \<longleftrightarrow>
   (\<forall>dcd\<in>ran d. \<not> isl (AsStruct k dcd))"
  by (simp add: SetDesiredComposedResources_def split: prod.splits)

lemma Set_carries:
  assumes "snd (SetDesiredComposedResources k res d) = None" and "d n = Some dcd"
  shows "carries k (fst (SetDesiredComposedResources k res d)) n dcd"
proof -
  from assms(1) have all: "\<forall>dcd\<in>ran d. \<not> isl (AsStruct k dcd)"
    by (simp add: Set_ok_iff)
  moreover from assms(2) have "dcd \<in> ran d"
    by (rule ranI)
  ultimately obtain w where "AsStruct k dcd = Inr w"
    by (cases "AsStruct k dcd") auto
  with all assms(2) show ?thesis
    by (simp add: carries_def SetDesiredComposedResources_def)
qed

lemma Set_keeps:
  assumes "snd (SetDesiredComposedResources k res d) = None" and "d n = None"
  shows "fst (SetDesiredComposedResources k res d) n = res n"
proof -
  from assms(1) have "\<forall>dcd\<in>ran d. \<not> isl (AsStruct k dcd)"
    by (simp add: Set_ok_iff)
  with assms(2) show ?thesis
    by (simp add: SetDesiredComposedResources_def)
qed

lemma holds_carries_unit:
  assumes "holds k d n obj" and "\<forall>m dcd. d m = Some dcd \<longrightarrow> carries k res m dcd"
  shows "carries_unit k res n obj"
proof (cases "From k obj")
  case (Inl e)
  with assms(1) show ?thesis
    by (simp add: holds_def)
next
  case (Inr u)
  with assms(1) have "d n = Some (DesiredComposed u)"
    by (simp add: holds_def)
  with assms(2) have "carries k res n (DesiredComposed u)"
    by blast
  with Inr show ?thesis
    by (simp add: carries_unit_def)
qed

lemma run_none_not_written:
  "RunFunction (fixture no_object True) (request (Some xr_none) [''kept'' \<mapsto> other]) =
     \<lparr>out_rsp =
        \<lparr>rsp_Tag = ''tag'', rsp_Ttl = 60000000000, rsp_Desired = [''kept'' \<mapsto> other],
         rsp_Results =
           [\<lparr>res_Severity = SEVERITY_FATAL,
             res_Message =
               ''cannot set desired composed resources in *v1.RunFunctionResponse: cannot marshal''\<rparr>]\<rparr>,
      out_err = None,
      out_desired = Some (map_option DesiredComposed \<circ> [''kept'' \<mapsto> other])\<rparr>"
proof -
  let ?d0 = "map_option DesiredComposed \<circ> [''kept'' \<mapsto> other]"
  have "?d0 ''kept'' = Some (DesiredComposed other)"
    by simp
  then have "SetDesiredComposedResources (fixture no_object True) [''kept'' \<mapsto> other] ?d0 =
      ([''kept'' \<mapsto> other], Some ''cannot marshal'')"
    by (rule fixture_Set(2))
  then show ?thesis
    using RunFunction_loop [of "fixture no_object True"
        "request (Some xr_none) [''kept'' \<mapsto> other]" xr_none ?d0]
    by (simp add: replicas.simps response_To_def response_Fatal_def Wrapf_def
        DefaultTTL_def Minute_def Second_def)
qed

lemma run_net_gateway_fails:
  "RunFunction (fixture (object_named ''gateway-net-1'') False) (request (Some xr_net) d) =
     \<lparr>out_rsp =
        \<lparr>rsp_Tag = ''tag'', rsp_Ttl = 60000000000, rsp_Desired = d,
         rsp_Results =
           [\<lparr>res_Severity = SEVERITY_FATAL,
             res_Message =
               ''cannot convert *v1beta1.InternetGateway to *composed.Unstructured: no kind registered''\<rparr>]\<rparr>,
      out_err = None,
      out_desired =
        Some ((map_option DesiredComposed \<circ> d)
          (''vpc-net-0'' \<mapsto>
             DesiredComposed (VPCObject (vpc ''net'' ''eu-central-1'' ''default'' 0)),
           ''gateway-net-0'' \<mapsto>
             DesiredComposed
               (InternetGatewayObject (gateway ''net'' ''eu-central-1'' ''default'' 0)),
           ''vpc-net-1'' \<mapsto>
             DesiredComposed (VPCObject (vpc ''net'' ''eu-central-1'' ''default'' 1))))\<rparr>"
proof -
  let ?k = "fixture (object_named ''gateway-net-1'') False"
  let ?d0 = "map_option DesiredComposed \<circ> d"
  have "replicas ?k ''net'' True ''eu-central-1'' ''default'' 0 2 ?d0 =
      (?d0(''vpc-net-0'' \<mapsto>
             DesiredComposed (VPCObject (vpc ''net'' ''eu-central-1'' ''default'' 0)),
           ''gateway-net-0'' \<mapsto>
             DesiredComposed
               (InternetGatewayObject (gateway ''net'' ''eu-central-1'' ''default'' 0)),
           ''vpc-net-1'' \<mapsto>
             DesiredComposed (VPCObject (vpc ''net'' ''eu-central-1'' ''default'' 1))),
       Some (Wrapf ''no kind registered''
         ''cannot convert *v1beta1.InternetGateway to *composed.Unstructured''))"
    by (simp add: replicas.simps replica_def bad_gateway_net_1 names_literal
        del: fixture_From)
  then show ?thesis
    using RunFunction_loop [of ?k "request (Some xr_net) d" xr_net ?d0]
    by (simp add: response_To_def response_Fatal_def Wrapf_def
        DefaultTTL_def Minute_def Second_def)
qed

section \<open>The claims\<close>

text \<open>
  C1, as the claim states it, fails in two ways. With the concrete SDK, a count of 0 and
  both reads succeeding, the response is fatal when the resource the request already has
  does not convert to the wire form. And with the composite resource of the repository's
  test (count 1, includeGateway set), when the request already has resources under the
  names \<open>vpc-code-0\<close> and \<open>gateway-code-0\<close>, the invocation is successful and the map
  and the response have the names they had: no entry is added, the two are replaced.
\<close>

theorem adds_exactly_count_entries_counterexample:
  "spec_count (fixture no_object True) xr_none = 0 \<and>
   GetObservedCompositeResource (fixture no_object True)
     (request (Some xr_none) [''kept'' \<mapsto> other]) = Inr xr_none \<and>
   GetDesiredComposedResources (fixture no_object True)
     (request (Some xr_none) [''kept'' \<mapsto> other]) =
     Inr (map_option DesiredComposed \<circ> [''kept'' \<mapsto> other]) \<and>
   is_fatal (out_rsp (RunFunction (fixture no_object True)
     (request (Some xr_none) [''kept'' \<mapsto> other]))) \<and>
   spec_count (fixture no_object False) xr_code = 1 \<and>
   spec_includeGateway (fixture no_object False) xr_code \<and>
   \<not> is_fatal (out_rsp (RunFunction (fixture no_object False)
     (request (Some xr_code) [''vpc-code-0'' \<mapsto> other, ''gateway-code-0'' \<mapsto> other]))) \<and>
   dom (the (out_desired (RunFunction (fixture no_object False)
     (request (Some xr_code) [''vpc-code-0'' \<mapsto> other, ''gateway-code-0'' \<mapsto> other])))) =
     dom (map_option DesiredComposed \<circ> [''vpc-code-0'' \<mapsto> other, ''gateway-code-0'' \<mapsto> other]) \<and>
   dom (rsp_Desired (out_rsp (RunFunction (fixture no_object False)
     (request (Some xr_code) [''vpc-code-0'' \<mapsto> other, ''gateway-code-0'' \<mapsto> other])))) =
     dom (req_Desired
       (request (Some xr_code) [''vpc-code-0'' \<mapsto> other, ''gateway-code-0'' \<mapsto> other]))"
  by (auto simp: run_code run_none_not_written is_fatal_def)

text \<open>
  C1, amended. In an invocation that reads a count of at least 0 and ends with a
  response that is not fatal, the map holds a converted VPC under each of the \<open>count\<close>
  pairwise different names \<open>vpcName id i\<close>, \<open>0 \<le> i < count\<close>, and, when includeGateway
  is set, a converted InternetGateway under each of the \<open>count\<close> pairwise different names
  \<open>gatewayName id i\<close>, in place of what it had under these names; these are all the
  names it adds, every other name maps to what it mapped to before, and the response
  carries the wire form of every resource of the map. The map has exactly \<open>count\<close> more
  names than before (twice \<open>count\<close> with includeGateway) when it had none of these names,
  and never more. With a count of 0 the map is left as it was read, and the response is
  fatal exactly when writing the unchanged map into the response fails, that is when a
  resource the map already had does not convert to the wire form.
\<close>

theorem successful_invocation_adds_count_units:
  fixes k :: "('o, 'w, 'xr, 'u) sdk" and oxr :: 'xr
  defines "a \<equiv> spec_id k oxr" and "c \<equiv> spec_count k oxr"
    and "g \<equiv> spec_includeGateway k oxr" and "r \<equiv> spec_region k oxr"
    and "p \<equiv> spec_providerConfigName k oxr"
  assumes obs: "GetObservedCompositeResource k req = Inr oxr"
    and des: "GetDesiredComposedResources k req = Inr d0"
    and count: "0 \<le> c"
  shows "(\<not> is_fatal (out_rsp (RunFunction k req)) \<longrightarrow>
          (\<exists>d'. out_desired (RunFunction k req) = Some d' \<and>
             card (vpcName a ` {0..<c}) = nat c \<and>
             (\<forall>i\<in>{0..<c}. holds k d' (vpcName a i) (VPCObject (vpc a r p i))) \<and>
             (g \<longrightarrow> card (gatewayName a ` {0..<c}) = nat c \<and>
                (\<forall>i\<in>{0..<c}. holds k d' (gatewayName a i)
                   (InternetGatewayObject (gateway a r p i)))) \<and>
             vpcName a ` {0..<c} \<inter> gatewayName a ` {0..<c} = {} \<and>
             dom d' = dom d0 \<union> vpcName a ` {0..<c} \<union>
               (if g then gatewayName a ` {0..<c} else {}) \<and>
             (\<forall>n. n \<notin> vpcName a ` {0..<c} \<union> (if g then gatewayName a ` {0..<c} else {}) \<longrightarrow>
                d' n = d0 n) \<and>
             card (dom d' - dom d0) \<le> (if g then 2 * nat c else nat c) \<and>
             (names a g 0 c \<inter> dom d0 = {} \<longrightarrow>
                card (dom d' - dom d0) = (if g then 2 * nat c else nat c)) \<and>
             (\<forall>n dcd. d' n = Some dcd \<longrightarrow>
                carries k (rsp_Desired (out_rsp (RunFunction k req))) n dcd) \<and>
             (\<forall>n. d' n = None \<longrightarrow>
                rsp_Desired (out_rsp (RunFunction k req)) n = req_Desired req n))) \<and>
         (c = 0 \<longrightarrow>
            out_desired (RunFunction k req) = Some d0 \<and>
            (is_fatal (out_rsp (RunFunction k req)) \<longleftrightarrow>
               snd (SetDesiredComposedResources k (req_Desired req) d0) \<noteq> None) \<and>
            (is_fatal (out_rsp (RunFunction k req)) \<longleftrightarrow>
               \<not> (\<forall>dcd\<in>ran d0. \<not> isl (AsStruct k dcd))))"
proof (intro conjI impI)
  let ?run = "replicas k a g r p 0 c d0"
  let ?V = "vpcName a ` {0..<c}" and ?G = "gatewayName a ` {0..<c}"
  have out: "out_desired (RunFunction k req) = Some (fst ?run)"
    unfolding a_def c_def g_def r_def p_def by (rule RunFunction_out_desired [OF obs des])
  have fatal: "is_fatal (out_rsp (RunFunction k req)) \<longleftrightarrow>
      snd ?run \<noteq> None \<or> snd (SetDesiredComposedResources k (req_Desired req) (fst ?run)) \<noteq> None"
    unfolding a_def c_def g_def r_def p_def by (rule RunFunction_fatal_iff [OF obs des])
  {
    assume success: "\<not> is_fatal (out_rsp (RunFunction k req))"
    with fatal have ok: "snd ?run = None"
      and written: "snd (SetDesiredComposedResources k (req_Desired req) (fst ?run)) = None"
      by simp_all
    from ok have loop: "?run = (fst ?run, None)"
      by (simp add: prod_eq_iff)
    have rsp: "rsp_Desired (out_rsp (RunFunction k req)) =
        fst (SetDesiredComposedResources k (req_Desired req) (fst ?run))"
      using RunFunction_written [OF obs des loop [unfolded a_def c_def g_def r_def p_def]
          written [unfolded a_def c_def g_def r_def p_def]]
      by (simp add: a_def c_def g_def r_def p_def)
    have vpcs: "\<forall>i\<in>{0..<c}. holds k (fst ?run) (vpcName a i) (VPCObject (vpc a r p i))"
      using ok by (simp add: replicas_holds_vpc)
    have gws: "g \<longrightarrow> card ?G = nat c \<and>
        (\<forall>i\<in>{0..<c}. holds k (fst ?run) (gatewayName a i)
           (InternetGatewayObject (gateway a r p i)))"
      using ok by (auto simp: card_gatewayNames intro!: replicas_holds_gateway)
    have names: "names a g 0 c = ?V \<union> (if g then ?G else {})"
      by (simp add: names_def)
    have doms: "dom (fst ?run) = dom d0 \<union> ?V \<union> (if g then ?G else {})"
      using replicas_dom_eq [OF ok] by (simp add: names_def Un_assoc)
    have frame: "\<forall>n. n \<notin> ?V \<union> (if g then ?G else {}) \<longrightarrow> fst ?run n = d0 n"
      using replicas_frame [of _ a g 0 c k r p d0] by (simp add: names_def)
    have card_names: "card (names a g 0 c) = (if g then 2 * nat c else nat c)"
    proof (cases g)
      case True
      have "card (?V \<union> ?G) = card ?V + card ?G"
        by (rule card_Un_disjoint) (simp_all add: names_disjoint)
      with True show ?thesis
        by (simp add: names_def card_vpcNames card_gatewayNames)
    next
      case False
      then show ?thesis
        by (simp add: names_def card_vpcNames)
    qed
    have fin: "finite (names a g 0 c)"
      by (simp add: names)
    have diff: "dom (fst ?run) - dom d0 = names a g 0 c - dom d0"
      using doms names by auto
    have upper: "card (dom (fst ?run) - dom d0) \<le> (if g then 2 * nat c else nat c)"
      unfolding diff using card_names fin
      by (metis Diff_subset card_mono)
    have exact: "names a g 0 c \<inter> dom d0 = {} \<longrightarrow>
        card (dom (fst ?run) - dom d0) = (if g then 2 * nat c else nat c)"
    proof
      assume "names a g 0 c \<inter> dom d0 = {}"
      then have "names a g 0 c - dom d0 = names a g 0 c"
        by auto
      with diff card_names
      show "card (dom (fst ?run) - dom d0) = (if g then 2 * nat c else nat c)"
        by simp
    qed
    have all: "\<forall>n dcd. fst ?run n = Some dcd \<longrightarrow>
        carries k (rsp_Desired (out_rsp (RunFunction k req))) n dcd"
      unfolding rsp using written by (auto intro: Set_carries)
    have rest: "\<forall>n. fst ?run n = None \<longrightarrow>
        rsp_Desired (out_rsp (RunFunction k req)) n = req_Desired req n"
      unfolding rsp using written by (auto intro: Set_keeps)
    from out vpcs gws doms frame upper exact [unfolded names] all rest
    show "\<exists>d'. out_desired (RunFunction k req) = Some d' \<and>
             card (vpcName a ` {0..<c}) = nat c \<and>
             (\<forall>i\<in>{0..<c}. holds k d' (vpcName a i) (VPCObject (vpc a r p i))) \<and>
             (g \<longrightarrow> card (gatewayName a ` {0..<c}) = nat c \<and>
                (\<forall>i\<in>{0..<c}. holds k d' (gatewayName a i)
                   (InternetGatewayObject (gateway a r p i)))) \<and>
             vpcName a ` {0..<c} \<inter> gatewayName a ` {0..<c} = {} \<and>
             dom d' = dom d0 \<union> vpcName a ` {0..<c} \<union>
               (if g then gatewayName a ` {0..<c} else {}) \<and>
             (\<forall>n. n \<notin> vpcName a ` {0..<c} \<union> (if g then gatewayName a ` {0..<c} else {}) \<longrightarrow>
                d' n = d0 n) \<and>
             card (dom d' - dom d0) \<le> (if g then 2 * nat c else nat c) \<and>
             (names a g 0 c \<inter> dom d0 = {} \<longrightarrow>
                card (dom d' - dom d0) = (if g then 2 * nat c else nat c)) \<and>
             (\<forall>n dcd. d' n = Some dcd \<longrightarrow>
                carries k (rsp_Desired (out_rsp (RunFunction k req))) n dcd) \<and>
             (\<forall>n. d' n = None \<longrightarrow>
                rsp_Desired (out_rsp (RunFunction k req)) n = req_Desired req n)"
      unfolding names
      by (intro exI [of _ "fst ?run"] conjI card_vpcNames names_disjoint) assumption+
  }
  {
    assume "c = 0"
    then have run0: "?run = (d0, None)"
      by (simp add: replicas.simps)
    with out show "out_desired (RunFunction k req) = Some d0"
      by simp
    from fatal run0
    show w: "is_fatal (out_rsp (RunFunction k req)) \<longleftrightarrow>
        snd (SetDesiredComposedResources k (req_Desired req) d0) \<noteq> None"
      by simp
    then show "is_fatal (out_rsp (RunFunction k req)) \<longleftrightarrow>
        \<not> (\<forall>dcd\<in>ran d0. \<not> isl (AsStruct k dcd))"
      by (simp add: Set_ok_iff)
  }
qed

theorem successful_invocation_adds_count_units_witness:
  "GetObservedCompositeResource (fixture no_object False)
     (request (Some xr_code) [''kept'' \<mapsto> other]) = Inr xr_code \<and>
   (0::int) \<le> spec_count (fixture no_object False) xr_code \<and>
   \<not> is_fatal (out_rsp (RunFunction (fixture no_object False)
       (request (Some xr_code) [''kept'' \<mapsto> other]))) \<and>
   card (vpcName ''code'' ` {0..<1}) = 1 \<and>
   card (gatewayName ''code'' ` {0..<1}) = 1 \<and>
   dom (the (out_desired (RunFunction (fixture no_object False)
       (request (Some xr_code) [''kept'' \<mapsto> other])))) =
     {''kept'', ''vpc-code-0'', ''gateway-code-0''} \<and>
   holds (fixture no_object False)
     (the (out_desired (RunFunction (fixture no_object False)
       (request (Some xr_code) [''kept'' \<mapsto> other]))))
     ''vpc-code-0'' (VPCObject (vpc ''code'' ''eu-central-1'' ''default'' 0)) \<and>
   holds (fixture no_object False)
     (the (out_desired (RunFunction (fixture no_object False)
       (request (Some xr_code) [''kept'' \<mapsto> other]))))
     ''gateway-code-0'' (InternetGatewayObject (gateway ''code'' ''eu-central-1'' ''default'' 0)) \<and>
   the (out_desired (RunFunction (fixture no_object False)
       (request (Some xr_code) [''kept'' \<mapsto> other]))) ''kept'' = Some (DesiredComposed other) \<and>
   spec_count (fixture no_object False) xr_none = 0 \<and>
   out_desired (RunFunction (fixture no_object False)
       (request (Some xr_none) [''kept'' \<mapsto> other])) =
     Some (map_option DesiredComposed \<circ> [''kept'' \<mapsto> other]) \<and>
   \<not> is_fatal (out_rsp (RunFunction (fixture no_object False)
       (request (Some xr_none) [''kept'' \<mapsto> other]))) \<and>
   card (dom (the (out_desired (RunFunction (fixture no_object False)
       (request (Some xr_code) [''kept'' \<mapsto> other])))) -
     dom (map_option DesiredComposed \<circ> [''kept'' \<mapsto> other])) = 2 \<and>
   carries (fixture no_object False)
     (rsp_Desired (out_rsp (RunFunction (fixture no_object False)
       (request (Some xr_code) [''kept'' \<mapsto> other]))))
     ''vpc-code-0'' (DesiredComposed (VPCObject (vpc ''code'' ''eu-central-1'' ''default'' 0)))"
proof -
  let ?k = "fixture no_object False"
  let ?req = "request (Some xr_code) [''kept'' \<mapsto> other]"
  let ?empty = "request (Some xr_none) [''kept'' \<mapsto> other]"
  have obs: "GetObservedCompositeResource ?k ?req = Inr xr_code"
    by simp
  have des: "GetDesiredComposedResources ?k ?req =
      Inr (map_option DesiredComposed \<circ> [''kept'' \<mapsto> other])"
    by simp
  have count: "0 \<le> spec_count ?k xr_code"
    by simp
  have obs0: "GetObservedCompositeResource ?k ?empty = Inr xr_none"
    by simp
  have des0: "GetDesiredComposedResources ?k ?empty =
      Inr (map_option DesiredComposed \<circ> [''kept'' \<mapsto> other])"
    by simp
  have count0: "0 \<le> spec_count ?k xr_none"
    by simp
  from successful_invocation_adds_count_units [OF obs0 des0 count0]
  have none: "out_desired (RunFunction ?k ?empty) =
        Some (map_option DesiredComposed \<circ> [''kept'' \<mapsto> other])"
      "\<not> is_fatal (out_rsp (RunFunction ?k ?empty))"
    by simp_all
  have ok: "\<not> is_fatal (out_rsp (RunFunction ?k ?req))"
    by (simp add: run_code is_fatal_def)
  have int01: "{0..<1::int} = {0}"
    by auto
  from successful_invocation_adds_count_units [OF obs des count] ok
  obtain d' where d': "out_desired (RunFunction ?k ?req) = Some d'"
    and card_v: "card (vpcName ''code'' ` {0..<1}) = nat 1"
    and hold_v: "\<forall>i\<in>{0..<1}. holds ?k d' (vpcName ''code'' i)
        (VPCObject (vpc ''code'' ''eu-central-1'' ''default'' i))"
    and gws: "card (gatewayName ''code'' ` {0..<1}) = nat 1 \<and>
        (\<forall>i\<in>{0..<1}. holds ?k d' (gatewayName ''code'' i)
           (InternetGatewayObject (gateway ''code'' ''eu-central-1'' ''default'' i)))"
    and doms: "dom d' = dom (map_option DesiredComposed \<circ> [''kept'' \<mapsto> other]) \<union>
        vpcName ''code'' ` {0..<1} \<union> gatewayName ''code'' ` {0..<1}"
    and frame: "\<forall>n. n \<notin> vpcName ''code'' ` {0..<1} \<union> gatewayName ''code'' ` {0..<1} \<longrightarrow>
        d' n = (map_option DesiredComposed \<circ> [''kept'' \<mapsto> other]) n"
    and all: "\<forall>n dcd. d' n = Some dcd \<longrightarrow>
        carries ?k (rsp_Desired (out_rsp (RunFunction ?k ?req))) n dcd"
    by auto
  from doms have domd: "dom d' = {''kept'', ''vpc-code-0'', ''gateway-code-0''}"
    by (auto simp: int01 names_literal split: if_splits)
  then have "dom d' - dom (map_option DesiredComposed \<circ> [''kept'' \<mapsto> other]) =
      {''vpc-code-0'', ''gateway-code-0''}"
    by auto
  then have more: "card (dom d' - dom (map_option DesiredComposed \<circ> [''kept'' \<mapsto> other])) = 2"
    by simp
  from hold_v have "d' ''vpc-code-0'' =
      Some (DesiredComposed (VPCObject (vpc ''code'' ''eu-central-1'' ''default'' 0)))"
    by (simp add: int01 names_literal holds_def no_object_def)
  with all have wire: "carries ?k (rsp_Desired (out_rsp (RunFunction ?k ?req))) ''vpc-code-0''
      (DesiredComposed (VPCObject (vpc ''code'' ''eu-central-1'' ''default'' 0)))"
    by blast
  from frame have kept: "d' ''kept'' = Some (DesiredComposed other)"
    by (simp add: int01 names_literal)
  from domd kept more wire show ?thesis
    using obs count ok d' card_v hold_v gws none by (simp add: int01 names_literal)
qed

text \<open>
  C2. The VPC and the gateway the loop builds at index \<open>i\<close> are named \<open>vpc-<id>-<i>\<close>
  and \<open>gateway-<id>-<i>\<close>, whatever the other values of the request; \<open><i>\<close> is the
  decimal numeral of \<open>i\<close>. The names of different indices differ, and a VPC name is
  never a gateway name. When the loop reaches replica \<open>i\<close> and the conversions up to it
  succeed, the map holds the converted VPC under the first name and, with includeGateway,
  the converted gateway under the second. The function is a function of the request and
  of what the SDK returns, so the same input gives the same names.
\<close>

theorem names_exact_and_distinct:
  fixes k :: "('o, 'w, 'xr, 'u) sdk" and oxr :: 'xr
  defines "a \<equiv> spec_id k oxr" and "c \<equiv> spec_count k oxr"
    and "g \<equiv> spec_includeGateway k oxr" and "r \<equiv> spec_region k oxr"
    and "p \<equiv> spec_providerConfigName k oxr"
  assumes obs: "GetObservedCompositeResource k req = Inr oxr"
    and des: "GetDesiredComposedResources k req = Inr d0"
  shows "(0 \<le> i \<and> i < c \<and> (\<forall>l. 0 \<le> l \<and> l \<le> i \<longrightarrow> converts k a g r p l) \<longrightarrow>
            ParseUint (Sprintf_d i) = nat i \<and>
            (\<exists>d'. out_desired (RunFunction k req) = Some d' \<and>
               holds k d' (''vpc-'' @ a @ ''-'' @ Sprintf_d i) (VPCObject (vpc a r p i)) \<and>
               (g \<longrightarrow> holds k d' (''gateway-'' @ a @ ''-'' @ Sprintf_d i)
                        (InternetGatewayObject (gateway a r p i))))) \<and>
         (\<forall>r' p'. Name (vpc_ObjectMeta (vpc a r' p' i)) = ''vpc-'' @ a @ ''-'' @ Sprintf_d i \<and>
            Name (igw_ObjectMeta (gateway a r' p' i)) = ''gateway-'' @ a @ ''-'' @ Sprintf_d i) \<and>
         (\<forall>j. j \<noteq> i \<longrightarrow>
            ''vpc-'' @ a @ ''-'' @ Sprintf_d j \<noteq> ''vpc-'' @ a @ ''-'' @ Sprintf_d i \<and>
            ''gateway-'' @ a @ ''-'' @ Sprintf_d j \<noteq> ''gateway-'' @ a @ ''-'' @ Sprintf_d i) \<and>
         (\<forall>j. ''vpc-'' @ a @ ''-'' @ Sprintf_d j \<noteq> ''gateway-'' @ a @ ''-'' @ Sprintf_d i)"
proof (intro conjI impI)
  assume reached: "0 \<le> i \<and> i < c \<and> (\<forall>l. 0 \<le> l \<and> l \<le> i \<longrightarrow> converts k a g r p l)"
  with RunFunction_holds [OF obs des, of i]
  show "\<exists>d'. out_desired (RunFunction k req) = Some d' \<and>
            holds k d' (''vpc-'' @ a @ ''-'' @ Sprintf_d i) (VPCObject (vpc a r p i)) \<and>
            (g \<longrightarrow> holds k d' (''gateway-'' @ a @ ''-'' @ Sprintf_d i)
                     (InternetGatewayObject (gateway a r p i)))"
    unfolding a_def c_def g_def r_def p_def vpcName_def gatewayName_def by simp
  from reached show "ParseUint (Sprintf_d i) = nat i"
    by (simp add: ParseUint_Sprintf_d)
next
  show "\<forall>r' p'. Name (vpc_ObjectMeta (vpc a r' p' i)) = ''vpc-'' @ a @ ''-'' @ Sprintf_d i \<and>
      Name (igw_ObjectMeta (gateway a r' p' i)) = ''gateway-'' @ a @ ''-'' @ Sprintf_d i"
    by (simp add: vpc_def gateway_def vpcName_def gatewayName_def)
  show "\<forall>j. j \<noteq> i \<longrightarrow>
      ''vpc-'' @ a @ ''-'' @ Sprintf_d j \<noteq> ''vpc-'' @ a @ ''-'' @ Sprintf_d i \<and>
      ''gateway-'' @ a @ ''-'' @ Sprintf_d j \<noteq> ''gateway-'' @ a @ ''-'' @ Sprintf_d i"
    using Sprintf_d_inj by auto
  show "\<forall>j. ''vpc-'' @ a @ ''-'' @ Sprintf_d j \<noteq> ''gateway-'' @ a @ ''-'' @ Sprintf_d i"
    by simp
qed

theorem names_exact_and_distinct_witness:
  "GetObservedCompositeResource (fixture no_object False) (request (Some xr_net) Map.empty) =
     Inr xr_net \<and>
   (1::int) < spec_count (fixture no_object False) xr_net \<and>
   converts (fixture no_object False) ''net'' True ''eu-central-1'' ''default'' 0 \<and>
   converts (fixture no_object False) ''net'' True ''eu-central-1'' ''default'' 1 \<and>
   holds (fixture no_object False)
     (the (out_desired (RunFunction (fixture no_object False)
        (request (Some xr_net) Map.empty))))
     ''vpc-net-1'' (VPCObject (vpc ''net'' ''eu-central-1'' ''default'' 1)) \<and>
   holds (fixture no_object False)
     (the (out_desired (RunFunction (fixture no_object False)
        (request (Some xr_net) Map.empty))))
     ''gateway-net-1'' (InternetGatewayObject (gateway ''net'' ''eu-central-1'' ''default'' 1)) \<and>
   Name (vpc_ObjectMeta (vpc ''net'' ''eu-central-1'' ''default'' 1)) = ''vpc-net-1'' \<and>
   Name (igw_ObjectMeta (gateway ''net'' ''eu-central-1'' ''default'' 1)) = ''gateway-net-1'' \<and>
   ''vpc-net-0'' \<noteq> ''vpc-net-1'' \<and> ParseUint (Sprintf_d 1) = 1"
proof -
  let ?k = "fixture no_object False"
  let ?req = "request (Some xr_net) Map.empty"
  have obs: "GetObservedCompositeResource ?k ?req = Inr xr_net"
    by simp
  have des: "GetDesiredComposedResources ?k ?req = Inr (map_option DesiredComposed \<circ> Map.empty)"
    by simp
  have i: "(0::int) \<le> 1" "1 < spec_count ?k xr_net"
    by simp_all
  have conv: "\<forall>l. 0 \<le> l \<and> l \<le> 1 \<longrightarrow>
      converts ?k (spec_id ?k xr_net) (spec_includeGateway ?k xr_net) (spec_region ?k xr_net)
        (spec_providerConfigName ?k xr_net) l"
    by simp
  have lit: "Sprintf_d 1 = ''1''" "Sprintf_d 0 = ''0''"
    by (simp_all add: Sprintf_d_def FormatUint.simps digit_def)
  from names_exact_and_distinct [OF obs des, of 1] i conv
  show ?thesis
    by (auto simp: lit)
qed

text \<open>
  C3. The gateway the loop builds at index \<open>i\<close> selects its VPC with matchControllerRef
  true and, as match labels, the single pair of the vpc-id label and the name
  \<open>vpc-<id>-<i>\<close> of the VPC of the same replica; its two direct references to a VPC are
  not set. When the loop reaches replica \<open>i\<close> with includeGateway set and the conversions
  up to it succeed, the map holds this gateway, converted, under the gateway's name, and
  that VPC under the VPC's.
\<close>

theorem gateway_selects_its_vpc_by_label:
  fixes k :: "('o, 'w, 'xr, 'u) sdk" and oxr :: 'xr
  defines "a \<equiv> spec_id k oxr" and "c \<equiv> spec_count k oxr"
    and "g \<equiv> spec_includeGateway k oxr" and "r \<equiv> spec_region k oxr"
    and "p \<equiv> spec_providerConfigName k oxr"
  assumes obs: "GetObservedCompositeResource k req = Inr oxr"
    and des: "GetDesiredComposedResources k req = Inr d0"
  shows "(g \<and> 0 \<le> i \<and> i < c \<and> (\<forall>l. 0 \<le> l \<and> l \<le> i \<longrightarrow> converts k a g r p l) \<longrightarrow>
            (\<exists>d'. out_desired (RunFunction k req) = Some d' \<and>
               holds k d' (gatewayName a i) (InternetGatewayObject (gateway a r p i)) \<and>
               holds k d' (vpcName a i) (VPCObject (vpc a r p i)))) \<and>
         VPCIDSelector (igw_ForProvider (igw_Spec (gateway a r p i))) =
           Some \<lparr>MatchControllerRef = Some True,
                 MatchLabels = [''networks.meta.fn.crossplane.io/vpc-id'' \<mapsto>
                   Name (vpc_ObjectMeta (vpc a r p i))]\<rparr> \<and>
         Name (vpc_ObjectMeta (vpc a r p i)) = ''vpc-'' @ a @ ''-'' @ Sprintf_d i \<and>
         VPCID (igw_ForProvider (igw_Spec (gateway a r p i))) = None \<and>
         VPCIDRef (igw_ForProvider (igw_Spec (gateway a r p i))) = None"
proof (intro conjI impI)
  assume "g \<and> 0 \<le> i \<and> i < c \<and> (\<forall>l. 0 \<le> l \<and> l \<le> i \<longrightarrow> converts k a g r p l)"
  with RunFunction_holds [OF obs des, of i]
  show "\<exists>d'. out_desired (RunFunction k req) = Some d' \<and>
      holds k d' (gatewayName a i) (InternetGatewayObject (gateway a r p i)) \<and>
      holds k d' (vpcName a i) (VPCObject (vpc a r p i))"
    unfolding a_def c_def g_def r_def p_def by auto
qed (simp_all add: gateway_def vpc_def vpc_id_label_def vpcName_def)

theorem gateway_selects_its_vpc_by_label_witness:
  "GetObservedCompositeResource (fixture no_object False) (request (Some xr_code) Map.empty) =
     Inr xr_code \<and>
   spec_includeGateway (fixture no_object False) xr_code \<and>
   (0::int) < spec_count (fixture no_object False) xr_code \<and>
   converts (fixture no_object False) ''code'' True ''eu-central-1'' ''default'' 0 \<and>
   holds (fixture no_object False)
     (the (out_desired (RunFunction (fixture no_object False)
        (request (Some xr_code) Map.empty))))
     ''gateway-code-0''
     (InternetGatewayObject (gateway ''code'' ''eu-central-1'' ''default'' 0)) \<and>
   VPCIDSelector (igw_ForProvider (igw_Spec (gateway ''code'' ''eu-central-1'' ''default'' 0))) =
     Some \<lparr>MatchControllerRef = Some True,
           MatchLabels = [''networks.meta.fn.crossplane.io/vpc-id'' \<mapsto> ''vpc-code-0'']\<rparr> \<and>
   VPCID (igw_ForProvider (igw_Spec (gateway ''code'' ''eu-central-1'' ''default'' 0))) = None \<and>
   VPCIDRef (igw_ForProvider (igw_Spec (gateway ''code'' ''eu-central-1'' ''default'' 0))) = None"
proof -
  let ?k = "fixture no_object False"
  let ?req = "request (Some xr_code) Map.empty"
  have obs: "GetObservedCompositeResource ?k ?req = Inr xr_code"
    by simp
  have des: "GetDesiredComposedResources ?k ?req = Inr (map_option DesiredComposed \<circ> Map.empty)"
    by simp
  have i: "(0::int) \<le> 0" "0 < spec_count ?k xr_code"
    by simp_all
  have conv: "\<forall>l. 0 \<le> l \<and> l \<le> 0 \<longrightarrow>
      converts ?k (spec_id ?k xr_code) (spec_includeGateway ?k xr_code) (spec_region ?k xr_code)
        (spec_providerConfigName ?k xr_code) l"
    by simp
  have gw: "spec_includeGateway ?k xr_code"
    by simp
  have lit: "Sprintf_d 0 = ''0''"
    by (simp add: Sprintf_d_def FormatUint.simps digit_def)
  from gateway_selects_its_vpc_by_label [OF obs des, of 0] i conv gw
  show ?thesis
    by (auto simp: lit names_literal)
qed

text \<open>
  C4. The region and the name of the provider configuration of the VPC and of the gateway
  the loop builds at any index are the values read from \<open>spec.region\<close> and
  \<open>spec.providerConfigName\<close> when these are not empty, and \<open>eu-central-1\<close> and
  \<open>default\<close> when they are. When the loop reaches replica \<open>i\<close> and the conversions up to
  it succeed, the map holds these units, converted.
\<close>

theorem defaults_only_for_empty_values:
  fixes k :: "('o, 'w, 'xr, 'u) sdk" and oxr :: 'xr
  defines "a \<equiv> spec_id k oxr" and "c \<equiv> spec_count k oxr"
    and "g \<equiv> spec_includeGateway k oxr" and "r \<equiv> spec_region k oxr"
    and "p \<equiv> spec_providerConfigName k oxr"
    and "region \<equiv> fst (GetString k oxr ''spec.region'')"
    and "providerConfigName \<equiv> fst (GetString k oxr ''spec.providerConfigName'')"
  assumes obs: "GetObservedCompositeResource k req = Inr oxr"
    and des: "GetDesiredComposedResources k req = Inr d0"
  shows "(0 \<le> i \<and> i < c \<and> (\<forall>l. 0 \<le> l \<and> l \<le> i \<longrightarrow> converts k a g r p l) \<longrightarrow>
            (\<exists>d'. out_desired (RunFunction k req) = Some d' \<and>
               holds k d' (vpcName a i) (VPCObject (vpc a r p i)) \<and>
               (g \<longrightarrow> holds k d' (gatewayName a i)
                        (InternetGatewayObject (gateway a r p i))))) \<and>
         vpc_Region (vpc_ForProvider (vpc_Spec (vpc a r p i))) =
           Some (if region = '''' then ''eu-central-1'' else region) \<and>
         igw_Region (igw_ForProvider (igw_Spec (gateway a r p i))) =
           Some (if region = '''' then ''eu-central-1'' else region) \<and>
         ProviderConfigReference (vpc_ResourceSpec (vpc_Spec (vpc a r p i))) =
           Some \<lparr>ref_Name = (if providerConfigName = '''' then ''default''
                              else providerConfigName)\<rparr> \<and>
         ProviderConfigReference (igw_ResourceSpec (igw_Spec (gateway a r p i))) =
           Some \<lparr>ref_Name = (if providerConfigName = '''' then ''default''
                              else providerConfigName)\<rparr>"
proof (intro conjI impI)
  assume "0 \<le> i \<and> i < c \<and> (\<forall>l. 0 \<le> l \<and> l \<le> i \<longrightarrow> converts k a g r p l)"
  with RunFunction_holds [OF obs des, of i]
  show "\<exists>d'. out_desired (RunFunction k req) = Some d' \<and>
      holds k d' (vpcName a i) (VPCObject (vpc a r p i)) \<and>
      (g \<longrightarrow> holds k d' (gatewayName a i) (InternetGatewayObject (gateway a r p i)))"
    unfolding a_def c_def g_def r_def p_def by auto
qed (simp_all add: gateway_def vpc_def r_def p_def region_def providerConfigName_def
    spec_region_def spec_providerConfigName_def Let_def)

theorem defaults_only_for_empty_values_witness:
  "fst (GetString (fixture no_object False) xr_net ''spec.region'') = '''' \<and>
   fst (GetString (fixture no_object False) xr_net ''spec.providerConfigName'') = '''' \<and>
   (1::int) < spec_count (fixture no_object False) xr_net \<and>
   converts (fixture no_object False) ''net'' True ''eu-central-1'' ''default'' 1 \<and>
   holds (fixture no_object False)
     (the (out_desired (RunFunction (fixture no_object False)
        (request (Some xr_net) Map.empty))))
     ''vpc-net-1'' (VPCObject (vpc ''net'' ''eu-central-1'' ''default'' 1)) \<and>
   vpc_Region (vpc_ForProvider (vpc_Spec (vpc ''net'' ''eu-central-1'' ''default'' 1))) =
     Some ''eu-central-1'' \<and>
   igw_Region (igw_ForProvider (igw_Spec (gateway ''net'' ''eu-central-1'' ''default'' 1))) =
     Some ''eu-central-1'' \<and>
   ProviderConfigReference (vpc_ResourceSpec (vpc_Spec (vpc ''net'' ''eu-central-1'' ''default'' 1))) =
     Some \<lparr>ref_Name = ''default''\<rparr> \<and>
   ProviderConfigReference
     (igw_ResourceSpec (igw_Spec (gateway ''net'' ''eu-central-1'' ''default'' 1))) =
     Some \<lparr>ref_Name = ''default''\<rparr>"
proof -
  let ?k = "fixture no_object False"
  let ?req = "request (Some xr_net) Map.empty"
  have obs: "GetObservedCompositeResource ?k ?req = Inr xr_net"
    by simp
  have des: "GetDesiredComposedResources ?k ?req = Inr (map_option DesiredComposed \<circ> Map.empty)"
    by simp
  have i: "(0::int) \<le> 1" "1 < spec_count ?k xr_net"
    by simp_all
  have conv: "\<forall>l. 0 \<le> l \<and> l \<le> 1 \<longrightarrow>
      converts ?k (spec_id ?k xr_net) (spec_includeGateway ?k xr_net) (spec_region ?k xr_net)
        (spec_providerConfigName ?k xr_net) l"
    by simp
  from defaults_only_for_empty_values [OF obs des, of 1] i conv
  show ?thesis
    by (auto simp: names_literal)
qed

text \<open>
  C5. The labels of the VPC the loop builds at any index are the network-id label with
  the id and the vpc-id label with the VPC's own name; the labels of the gateway are the
  network-id label with the id and nothing else. When the loop reaches replica \<open>i\<close> and
  the conversions up to it succeed, the map holds these units, converted.
\<close>

theorem units_carry_correlation_labels:
  fixes k :: "('o, 'w, 'xr, 'u) sdk" and oxr :: 'xr
  defines "a \<equiv> spec_id k oxr" and "c \<equiv> spec_count k oxr"
    and "g \<equiv> spec_includeGateway k oxr" and "r \<equiv> spec_region k oxr"
    and "p \<equiv> spec_providerConfigName k oxr"
  assumes obs: "GetObservedCompositeResource k req = Inr oxr"
    and des: "GetDesiredComposedResources k req = Inr d0"
  shows "(0 \<le> i \<and> i < c \<and> (\<forall>l. 0 \<le> l \<and> l \<le> i \<longrightarrow> converts k a g r p l) \<longrightarrow>
            (\<exists>d'. out_desired (RunFunction k req) = Some d' \<and>
               holds k d' (vpcName a i) (VPCObject (vpc a r p i)) \<and>
               (g \<longrightarrow> holds k d' (gatewayName a i)
                        (InternetGatewayObject (gateway a r p i))))) \<and>
         Labels (vpc_ObjectMeta (vpc a r p i)) =
           [''networks.meta.fn.crossplane.io/network-id'' \<mapsto> a,
            ''networks.meta.fn.crossplane.io/vpc-id'' \<mapsto> Name (vpc_ObjectMeta (vpc a r p i))] \<and>
         Labels (vpc_ObjectMeta (vpc a r p i)) ''networks.meta.fn.crossplane.io/network-id'' =
           Some a \<and>
         Labels (vpc_ObjectMeta (vpc a r p i)) ''networks.meta.fn.crossplane.io/vpc-id'' =
           Some (Name (vpc_ObjectMeta (vpc a r p i))) \<and>
         Labels (igw_ObjectMeta (gateway a r p i)) =
           [''networks.meta.fn.crossplane.io/network-id'' \<mapsto> a] \<and>
         dom (Labels (igw_ObjectMeta (gateway a r p i))) =
           {''networks.meta.fn.crossplane.io/network-id''}"
proof (intro conjI impI)
  assume "0 \<le> i \<and> i < c \<and> (\<forall>l. 0 \<le> l \<and> l \<le> i \<longrightarrow> converts k a g r p l)"
  with RunFunction_holds [OF obs des, of i]
  show "\<exists>d'. out_desired (RunFunction k req) = Some d' \<and>
      holds k d' (vpcName a i) (VPCObject (vpc a r p i)) \<and>
      (g \<longrightarrow> holds k d' (gatewayName a i) (InternetGatewayObject (gateway a r p i)))"
    unfolding a_def c_def g_def r_def p_def by auto
qed (simp_all add: gateway_def vpc_def network_id_label_def vpc_id_label_def)

theorem units_carry_correlation_labels_witness:
  "(0::int) < spec_count (fixture no_object False) xr_code \<and>
   converts (fixture no_object False) ''code'' True ''eu-central-1'' ''default'' 0 \<and>
   holds (fixture no_object False)
     (the (out_desired (RunFunction (fixture no_object False)
        (request (Some xr_code) Map.empty))))
     ''vpc-code-0'' (VPCObject (vpc ''code'' ''eu-central-1'' ''default'' 0)) \<and>
   holds (fixture no_object False)
     (the (out_desired (RunFunction (fixture no_object False)
        (request (Some xr_code) Map.empty))))
     ''gateway-code-0''
     (InternetGatewayObject (gateway ''code'' ''eu-central-1'' ''default'' 0)) \<and>
   Labels (vpc_ObjectMeta (vpc ''code'' ''eu-central-1'' ''default'' 0)) =
     [''networks.meta.fn.crossplane.io/network-id'' \<mapsto> ''code'',
      ''networks.meta.fn.crossplane.io/vpc-id'' \<mapsto> ''vpc-code-0''] \<and>
   Labels (igw_ObjectMeta (gateway ''code'' ''eu-central-1'' ''default'' 0)) =
     [''networks.meta.fn.crossplane.io/network-id'' \<mapsto> ''code'']"
proof -
  let ?k = "fixture no_object False"
  let ?req = "request (Some xr_code) Map.empty"
  have obs: "GetObservedCompositeResource ?k ?req = Inr xr_code"
    by simp
  have des: "GetDesiredComposedResources ?k ?req = Inr (map_option DesiredComposed \<circ> Map.empty)"
    by simp
  have i: "(0::int) \<le> 0" "0 < spec_count ?k xr_code"
    by simp_all
  have conv: "\<forall>l. 0 \<le> l \<and> l \<le> 0 \<longrightarrow>
      converts ?k (spec_id ?k xr_code) (spec_includeGateway ?k xr_code) (spec_region ?k xr_code)
        (spec_providerConfigName ?k xr_code) l"
    by simp
  have name: "Name (vpc_ObjectMeta (vpc ''code'' ''eu-central-1'' ''default'' 0)) = ''vpc-code-0''"
    by (simp add: vpc_def names_literal)
  note inst = units_carry_correlation_labels [OF obs des, of 0]
  from inst [THEN conjunct1] i conv
  have held: "holds ?k (the (out_desired (RunFunction ?k ?req))) ''vpc-code-0''
        (VPCObject (vpc ''code'' ''eu-central-1'' ''default'' 0)) \<and>
      holds ?k (the (out_desired (RunFunction ?k ?req))) ''gateway-code-0''
        (InternetGatewayObject (gateway ''code'' ''eu-central-1'' ''default'' 0))"
    by (auto simp: names_literal)
  from inst [THEN conjunct2, THEN conjunct1]
  have vpc_labels: "Labels (vpc_ObjectMeta (vpc ''code'' ''eu-central-1'' ''default'' 0)) =
      [''networks.meta.fn.crossplane.io/network-id'' \<mapsto> ''code'',
       ''networks.meta.fn.crossplane.io/vpc-id'' \<mapsto> ''vpc-code-0'']"
    by (simp only: spec_xr_code name)
  from inst [THEN conjunct2, THEN conjunct2, THEN conjunct2, THEN conjunct2, THEN conjunct1]
  have gateway_labels: "Labels (igw_ObjectMeta (gateway ''code'' ''eu-central-1'' ''default'' 0)) =
      [''networks.meta.fn.crossplane.io/network-id'' \<mapsto> ''code'']"
    by (simp only: spec_xr_code)
  have "(0::int) < spec_count ?k xr_code"
    by simp
  moreover have "converts ?k ''code'' True ''eu-central-1'' ''default'' 0"
    by simp
  ultimately show ?thesis
    using held vpc_labels gateway_labels by (intro conjI) (simp_all only: simp_thms)
qed

text \<open>
  C6. When the observed composite resource cannot be retrieved, the function returns a
  response with exactly one result, of severity fatal, whose message is not empty; it
  returns before it has the map of desired resources, so nothing is added to it, and
  the desired state of the response is that of the request.
\<close>

theorem composite_unavailable_is_fatal:
  assumes "GetObservedCompositeResource k req = Inl e"
  shows "is_fatal (out_rsp (RunFunction k req)) \<and>
         rsp_Results (out_rsp (RunFunction k req)) =
           [\<lparr>res_Severity = SEVERITY_FATAL, res_Message = ''cannot get desired XR: '' @ e\<rparr>] \<and>
         res_Message (last (rsp_Results (out_rsp (RunFunction k req)))) \<noteq> '''' \<and>
         out_desired (RunFunction k req) = None \<and>
         rsp_Desired (out_rsp (RunFunction k req)) = req_Desired req"
  using assms
  by (simp add: RunFunction_def response_Fatal_def response_To_def Wrapf_def is_fatal_def)

theorem composite_unavailable_is_fatal_witness:
  "GetObservedCompositeResource (fixture no_object False) (request None [''kept'' \<mapsto> other]) =
     Inl ''no composite resource'' \<and>
   is_fatal (out_rsp (RunFunction (fixture no_object False) (request None [''kept'' \<mapsto> other]))) \<and>
   rsp_Results (out_rsp (RunFunction (fixture no_object False) (request None [''kept'' \<mapsto> other]))) =
     [\<lparr>res_Severity = SEVERITY_FATAL,
       res_Message = ''cannot get desired XR: no composite resource''\<rparr>] \<and>
   out_desired (RunFunction (fixture no_object False) (request None [''kept'' \<mapsto> other])) = None \<and>
   rsp_Desired (out_rsp (RunFunction (fixture no_object False) (request None [''kept'' \<mapsto> other])))
     = [''kept'' \<mapsto> other]"
proof -
  have h: "GetObservedCompositeResource (fixture no_object False)
             (request None [''kept'' \<mapsto> other]) = Inl ''no composite resource''"
    by (simp add: fixture_def request_def)
  show ?thesis
    using h composite_unavailable_is_fatal [OF h] by (simp add: request_def)
qed

text \<open>
  C7. Once the function has the map of desired resources, whatever the outcome, every
  name that is not \<open>vpcName id i\<close> or \<open>gatewayName id i\<close> for some \<open>0 \<le> i < count\<close> maps
  in the map the function leaves to what it mapped to in the map it read (and, without
  includeGateway, so does every gateway name), and every name of the map it read is
  still a name of the map it leaves.
\<close>

theorem other_keys_untouched:
  fixes k :: "('o, 'w, 'xr, 'u) sdk" and oxr :: 'xr
  defines "a \<equiv> spec_id k oxr" and "c \<equiv> spec_count k oxr"
    and "g \<equiv> spec_includeGateway k oxr"
  assumes obs: "GetObservedCompositeResource k req = Inr oxr"
    and des: "GetDesiredComposedResources k req = Inr d0"
  shows "\<exists>d'. out_desired (RunFunction k req) = Some d' \<and>
           (\<forall>n. (\<nexists>i. 0 \<le> i \<and> i < c \<and> (n = vpcName a i \<or> n = gatewayName a i)) \<longrightarrow>
              d' n = d0 n) \<and>
           (\<forall>n. \<not> g \<and> (\<nexists>i. 0 \<le> i \<and> i < c \<and> n = vpcName a i) \<longrightarrow> d' n = d0 n) \<and>
           dom d0 \<subseteq> dom d'"
proof -
  let ?r = "spec_region k oxr" and ?p = "spec_providerConfigName k oxr"
  let ?d' = "fst (replicas k a g ?r ?p 0 c d0)"
  have out: "out_desired (RunFunction k req) = Some ?d'"
    unfolding a_def c_def g_def by (rule RunFunction_out_desired [OF obs des])
  have frame: "n \<notin> names a g 0 c \<Longrightarrow> ?d' n = d0 n" for n
    by (rule replicas_frame)
  have "\<forall>n. (\<nexists>i. 0 \<le> i \<and> i < c \<and> (n = vpcName a i \<or> n = gatewayName a i)) \<longrightarrow> ?d' n = d0 n"
  proof (intro allI impI)
    fix n
    assume "\<nexists>i. 0 \<le> i \<and> i < c \<and> (n = vpcName a i \<or> n = gatewayName a i)"
    then have "n \<notin> names a g 0 c"
      by (auto simp: names_def split: if_splits)
    then show "?d' n = d0 n" by (rule frame)
  qed
  moreover have "\<forall>n. \<not> g \<and> (\<nexists>i. 0 \<le> i \<and> i < c \<and> n = vpcName a i) \<longrightarrow> ?d' n = d0 n"
  proof (intro allI impI)
    fix n
    assume "\<not> g \<and> (\<nexists>i. 0 \<le> i \<and> i < c \<and> n = vpcName a i)"
    then have "n \<notin> names a g 0 c"
      by (auto simp: names_def)
    then show "?d' n = d0 n" by (rule frame)
  qed
  moreover have "dom d0 \<subseteq> dom ?d'"
    by (rule replicas_dom)
  ultimately show ?thesis
    using out by blast
qed

theorem other_keys_untouched_witness:
  "GetObservedCompositeResource (fixture no_object False)
     (request (Some xr_code) [''kept'' \<mapsto> other]) = Inr xr_code \<and>
   GetDesiredComposedResources (fixture no_object False)
     (request (Some xr_code) [''kept'' \<mapsto> other]) =
     Inr (map_option DesiredComposed \<circ> [''kept'' \<mapsto> other]) \<and>
   the (out_desired (RunFunction (fixture no_object False)
     (request (Some xr_code) [''kept'' \<mapsto> other]))) ''kept'' = Some (DesiredComposed other) \<and>
   the (out_desired (RunFunction (fixture no_object False)
     (request (Some xr_code) [''kept'' \<mapsto> other]))) ''vpc-code-1'' = None \<and>
   ''kept'' \<in> dom (the (out_desired (RunFunction (fixture no_object False)
     (request (Some xr_code) [''kept'' \<mapsto> other]))))"
proof -
  let ?k = "fixture no_object False"
  let ?req = "request (Some xr_code) [''kept'' \<mapsto> other]"
  let ?d0 = "map_option DesiredComposed \<circ> [''kept'' \<mapsto> other]"
  have obs: "GetObservedCompositeResource ?k ?req = Inr xr_code"
    by simp
  have des: "GetDesiredComposedResources ?k ?req = Inr ?d0"
    by simp
  from other_keys_untouched [OF obs des]
  obtain d' where out: "out_desired (RunFunction ?k ?req) = Some d'"
    and frame: "\<And>n. (\<nexists>i. 0 \<le> i \<and> i < 1 \<and> (n = vpcName ''code'' i \<or> n = gatewayName ''code'' i))
        \<Longrightarrow> d' n = ?d0 n"
    and dom: "dom ?d0 \<subseteq> dom d'"
    by auto
  have kept: "d' ''kept'' = Some (DesiredComposed other)"
  proof -
    have "\<nexists>i. 0 \<le> i \<and> i < 1 \<and>
        (''kept'' = vpcName ''code'' i \<or> ''kept'' = gatewayName ''code'' i)"
    proof (intro notI, elim exE conjE)
      fix i :: int
      assume "0 \<le> i" and "i < 1"
        and n: "''kept'' = vpcName ''code'' i \<or> ''kept'' = gatewayName ''code'' i"
      then have "i = 0" by simp
      with n show False by (simp add: names_literal)
    qed
    then show ?thesis
      using frame [of "''kept''"] by simp
  qed
  have absent: "d' ''vpc-code-1'' = None"
  proof -
    have "\<nexists>i. 0 \<le> i \<and> i < 1 \<and>
        (''vpc-code-1'' = vpcName ''code'' i \<or> ''vpc-code-1'' = gatewayName ''code'' i)"
    proof (intro notI, elim exE conjE)
      fix i :: int
      assume "0 \<le> i" and "i < 1"
        and n: "''vpc-code-1'' = vpcName ''code'' i \<or> ''vpc-code-1'' = gatewayName ''code'' i"
      then have "i = 0" by simp
      with n show False by (simp add: names_literal)
    qed
    then show ?thesis
      using frame [of "''vpc-code-1''"] by simp
  qed
  from dom have "''kept'' \<in> dom d'"
    by auto
  with obs des out kept absent show ?thesis
    by simp
qed

text \<open>
  C8, as the claim states it, fails. With the concrete SDK, two replicas and the
  conversion of the gateway of replica 1 failing, the function's map holds the units of
  replica 0 and the VPC of replica 1 when the function returns, but the function returns
  before it writes the map into the response: the response, which is fatal, carries
  nothing under their names. The entries do not remain in any collection the caller
  receives.
\<close>

theorem partial_entries_remain_counterexample:
  "converts (fixture (object_named ''gateway-net-1'') False)
     ''net'' True ''eu-central-1'' ''default'' 0 \<and>
   \<not> converts (fixture (object_named ''gateway-net-1'') False)
     ''net'' True ''eu-central-1'' ''default'' 1 \<and>
   is_fatal (out_rsp (RunFunction (fixture (object_named ''gateway-net-1'') False)
     (request (Some xr_net) Map.empty))) \<and>
   the (out_desired (RunFunction (fixture (object_named ''gateway-net-1'') False)
     (request (Some xr_net) Map.empty))) ''vpc-net-0'' =
     Some (DesiredComposed (VPCObject (vpc ''net'' ''eu-central-1'' ''default'' 0))) \<and>
   rsp_Desired (out_rsp (RunFunction (fixture (object_named ''gateway-net-1'') False)
     (request (Some xr_net) Map.empty))) ''vpc-net-0'' = None \<and>
   rsp_Desired (out_rsp (RunFunction (fixture (object_named ''gateway-net-1'') False)
     (request (Some xr_net) Map.empty))) ''gateway-net-0'' = None \<and>
   rsp_Desired (out_rsp (RunFunction (fixture (object_named ''gateway-net-1'') False)
     (request (Some xr_net) Map.empty))) ''vpc-net-1'' = None \<and>
   rsp_Desired (out_rsp (RunFunction (fixture (object_named ''gateway-net-1'') False)
     (request (Some xr_net) Map.empty))) =
     req_Desired (request (Some xr_net) Map.empty)"
proof -
  let ?k = "fixture (object_named ''gateway-net-1'') False"
  have c0: "converts ?k ''net'' True ''eu-central-1'' ''default'' 0"
    unfolding converts_def by (simp only: bad_gateway_net_1) simp
  have c1: "\<not> converts ?k ''net'' True ''eu-central-1'' ''default'' 1"
    unfolding converts_def by (simp only: bad_gateway_net_1) simp
  from c0 c1 show ?thesis
    by (simp add: run_net_gateway_fails is_fatal_def del: fixture_From)
qed

text \<open>
  C8, amended. When the conversions of all replicas before index \<open>i\<close> succeed and a
  conversion of replica \<open>i\<close> fails, the function returns no error and a response with
  one result, of severity fatal, whose message names the conversion that failed. The
  function's own map of desired resources is not rolled back: when the function returns
  it holds the converted units of all replicas before \<open>i\<close>, and the VPC of replica \<open>i\<close>
  when it was the gateway that failed; neither the gateway of replica \<open>i\<close> nor any unit
  of a later replica has been stored, and every other name maps to what it mapped to
  before. The map is not written into the response: the desired state of the response is
  that of the request, unchanged.
\<close>

theorem conversion_failure_aborts_loop:
  fixes k :: "('o, 'w, 'xr, 'u) sdk" and oxr :: 'xr
  defines "a \<equiv> spec_id k oxr" and "c \<equiv> spec_count k oxr"
    and "g \<equiv> spec_includeGateway k oxr" and "r \<equiv> spec_region k oxr"
    and "p \<equiv> spec_providerConfigName k oxr"
  assumes obs: "GetObservedCompositeResource k req = Inr oxr"
    and des: "GetDesiredComposedResources k req = Inr d0"
    and i: "0 \<le> i" "i < c"
    and before: "\<forall>l. 0 \<le> l \<and> l < i \<longrightarrow> converts k a g r p l"
    and fails: "\<not> converts k a g r p i"
  shows "out_err (RunFunction k req) = None \<and>
         is_fatal (out_rsp (RunFunction k req)) \<and>
         rsp_Desired (out_rsp (RunFunction k req)) = req_Desired req \<and>
         (\<exists>e. rsp_Results (out_rsp (RunFunction k req)) =
                 [\<lparr>res_Severity = SEVERITY_FATAL, res_Message = e\<rparr>] \<and>
              (case From k (VPCObject (vpc a r p i)) of
                 Inl err \<Rightarrow> e = ''cannot convert *v1beta1.VPC to *composed.Unstructured: '' @ err
               | Inr u \<Rightarrow>
                   (case From k (InternetGatewayObject (gateway a r p i)) of
                      Inl err \<Rightarrow>
                        e = ''cannot convert *v1beta1.InternetGateway to *composed.Unstructured: ''
                          @ err
                    | Inr w \<Rightarrow> False))) \<and>
         (\<exists>d'. out_desired (RunFunction k req) = Some d' \<and>
            (\<forall>l. 0 \<le> l \<and> l < i \<longrightarrow>
               holds k d' (vpcName a l) (VPCObject (vpc a r p l)) \<and>
               (g \<longrightarrow> holds k d' (gatewayName a l) (InternetGatewayObject (gateway a r p l)))) \<and>
            (case From k (VPCObject (vpc a r p i)) of
               Inl err \<Rightarrow> d' (vpcName a i) = d0 (vpcName a i)
             | Inr u \<Rightarrow> d' (vpcName a i) = Some (DesiredComposed u)) \<and>
            d' (gatewayName a i) = d0 (gatewayName a i) \<and>
            (\<forall>l. i < l \<longrightarrow> d' (vpcName a l) = d0 (vpcName a l) \<and>
               d' (gatewayName a l) = d0 (gatewayName a l)) \<and>
            (\<forall>n. n \<notin> names a g 0 i \<and> n \<noteq> vpcName a i \<longrightarrow> d' n = d0 n))"
proof -
  let ?di = "fst (replicas k a g r p 0 i d0)"
  from before have ok: "snd (replicas k a g r p 0 i d0) = None"
    by (simp add: replicas_ok_iff)
  have frame_i: "?di (vpcName a i) = d0 (vpcName a i)"
    by (rule replicas_frame) (rule vpcName_notin_earlier)
  show ?thesis
  proof (cases "From k (VPCObject (vpc a r p i))")
    case (Inl err)
    let ?e = "Wrapf err ''cannot convert *v1beta1.VPC to *composed.Unstructured''"
    from i before Inl have "replicas k a g r p 0 c d0 = (?di, Some ?e)"
      by (rule replicas_abort_vpc)
    then have run: "RunFunction k req =
        \<lparr>out_rsp = response_Fatal (response_To req DefaultTTL) ?e,
         out_err = None, out_desired = Some ?di\<rparr>"
      unfolding a_def c_def g_def r_def p_def by (rule RunFunction_loop_failed [OF obs des])
    have map: "(\<forall>l. 0 \<le> l \<and> l < i \<longrightarrow>
            holds k ?di (vpcName a l) (VPCObject (vpc a r p l)) \<and>
            (g \<longrightarrow> holds k ?di (gatewayName a l) (InternetGatewayObject (gateway a r p l)))) \<and>
         ?di (gatewayName a i) = d0 (gatewayName a i) \<and>
         (\<forall>l. i < l \<longrightarrow> ?di (vpcName a l) = d0 (vpcName a l) \<and>
            ?di (gatewayName a l) = d0 (gatewayName a l)) \<and>
         (\<forall>n. n \<notin> names a g 0 i \<and> n \<noteq> vpcName a i \<longrightarrow> ?di n = d0 n)"
      by (rule aborted_map [OF ok]) simp
    from Inl frame_i map show ?thesis
      by (simp add: run response_Fatal_def response_To_def Wrapf_def is_fatal_def)
  next
    case (Inr u)
    with fails have g: g
      by (auto simp: converts_def)
    from Inr fails obtain err where
      gw: "From k (InternetGatewayObject (gateway a r p i)) = Inl err"
      by (cases "From k (InternetGatewayObject (gateway a r p i))") (auto simp: converts_def)
    let ?e = "Wrapf err ''cannot convert *v1beta1.InternetGateway to *composed.Unstructured''"
    let ?d' = "?di(vpcName a i \<mapsto> DesiredComposed u)"
    from i before Inr g gw have "replicas k a g r p 0 c d0 = (?d', Some ?e)"
      by (rule replicas_abort_gateway)
    then have run: "RunFunction k req =
        \<lparr>out_rsp = response_Fatal (response_To req DefaultTTL) ?e,
         out_err = None, out_desired = Some ?d'\<rparr>"
      unfolding a_def c_def g_def r_def p_def by (rule RunFunction_loop_failed [OF obs des])
    have map: "(\<forall>l. 0 \<le> l \<and> l < i \<longrightarrow>
            holds k ?d' (vpcName a l) (VPCObject (vpc a r p l)) \<and>
            (g \<longrightarrow> holds k ?d' (gatewayName a l) (InternetGatewayObject (gateway a r p l)))) \<and>
         ?d' (gatewayName a i) = d0 (gatewayName a i) \<and>
         (\<forall>l. i < l \<longrightarrow> ?d' (vpcName a l) = d0 (vpcName a l) \<and>
            ?d' (gatewayName a l) = d0 (gatewayName a l)) \<and>
         (\<forall>n. n \<notin> names a g 0 i \<and> n \<noteq> vpcName a i \<longrightarrow> ?d' n = d0 n)"
      by (rule aborted_map [OF ok, where x = "DesiredComposed u"]) (rule disjI2, rule refl)
    have results: "rsp_Results (response_Fatal (response_To req DefaultTTL) ?e) =
        [\<lparr>res_Severity = SEVERITY_FATAL,
          res_Message =
            ''cannot convert *v1beta1.InternetGateway to *composed.Unstructured: '' @ err\<rparr>]"
      by (simp add: response_Fatal_def response_To_def Wrapf_def)
    have desired: "rsp_Desired (response_Fatal (response_To req DefaultTTL) ?e) = req_Desired req"
      by (simp add: response_Fatal_def response_To_def)
    have here: "?d' (vpcName a i) = Some (DesiredComposed u)"
      by simp
    from Inr gw results desired here map show ?thesis
      unfolding run by (simp del: fun_upd_apply)
  qed
qed

theorem conversion_failure_aborts_loop_witness:
  "(1::int) < spec_count (fixture (object_named ''gateway-net-1'') False) xr_net \<and>
   converts (fixture (object_named ''gateway-net-1'') False)
     ''net'' True ''eu-central-1'' ''default'' 0 \<and>
   \<not> converts (fixture (object_named ''gateway-net-1'') False)
     ''net'' True ''eu-central-1'' ''default'' 1 \<and>
   out_err (RunFunction (fixture (object_named ''gateway-net-1'') False)
     (request (Some xr_net) [''kept'' \<mapsto> other])) = None \<and>
   is_fatal (out_rsp (RunFunction (fixture (object_named ''gateway-net-1'') False)
     (request (Some xr_net) [''kept'' \<mapsto> other]))) \<and>
   rsp_Results (out_rsp (RunFunction (fixture (object_named ''gateway-net-1'') False)
     (request (Some xr_net) [''kept'' \<mapsto> other]))) =
     [\<lparr>res_Severity = SEVERITY_FATAL,
       res_Message =
         ''cannot convert *v1beta1.InternetGateway to *composed.Unstructured: no kind registered''\<rparr>] \<and>
   rsp_Desired (out_rsp (RunFunction (fixture (object_named ''gateway-net-1'') False)
     (request (Some xr_net) [''kept'' \<mapsto> other]))) = [''kept'' \<mapsto> other] \<and>
   holds (fixture (object_named ''gateway-net-1'') False)
     (the (out_desired (RunFunction (fixture (object_named ''gateway-net-1'') False)
       (request (Some xr_net) [''kept'' \<mapsto> other]))))
     ''vpc-net-0'' (VPCObject (vpc ''net'' ''eu-central-1'' ''default'' 0)) \<and>
   holds (fixture (object_named ''gateway-net-1'') False)
     (the (out_desired (RunFunction (fixture (object_named ''gateway-net-1'') False)
       (request (Some xr_net) [''kept'' \<mapsto> other]))))
     ''gateway-net-0'' (InternetGatewayObject (gateway ''net'' ''eu-central-1'' ''default'' 0)) \<and>
   the (out_desired (RunFunction (fixture (object_named ''gateway-net-1'') False)
       (request (Some xr_net) [''kept'' \<mapsto> other]))) ''vpc-net-1'' =
     Some (DesiredComposed (VPCObject (vpc ''net'' ''eu-central-1'' ''default'' 1))) \<and>
   the (out_desired (RunFunction (fixture (object_named ''gateway-net-1'') False)
       (request (Some xr_net) [''kept'' \<mapsto> other]))) ''gateway-net-1'' = None \<and>
   the (out_desired (RunFunction (fixture (object_named ''gateway-net-1'') False)
       (request (Some xr_net) [''kept'' \<mapsto> other]))) ''vpc-net-2'' = None"
proof -
  let ?k = "fixture (object_named ''gateway-net-1'') False"
  let ?req = "request (Some xr_net) [''kept'' \<mapsto> other]"
  let ?d0 = "map_option DesiredComposed \<circ> [''kept'' \<mapsto> other]"
  have obs: "GetObservedCompositeResource ?k ?req = Inr xr_net"
    by simp
  have des: "GetDesiredComposedResources ?k ?req = Inr ?d0"
    by simp
  have i: "(0::int) \<le> 1" "1 < spec_count ?k xr_net"
    by simp_all
  have c0: "converts ?k ''net'' True ''eu-central-1'' ''default'' 0"
    unfolding converts_def by (simp only: bad_gateway_net_1) simp
  have c1: "\<not> converts ?k ''net'' True ''eu-central-1'' ''default'' 1"
    unfolding converts_def by (simp only: bad_gateway_net_1) simp
  have before: "\<forall>l. 0 \<le> l \<and> l < 1 \<longrightarrow>
      converts ?k (spec_id ?k xr_net) (spec_includeGateway ?k xr_net) (spec_region ?k xr_net)
        (spec_providerConfigName ?k xr_net) l"
  proof (intro allI impI)
    fix l :: int
    assume "0 \<le> l \<and> l < 1"
    then have "l = 0" by simp
    with c0 show "converts ?k (spec_id ?k xr_net) (spec_includeGateway ?k xr_net)
        (spec_region ?k xr_net) (spec_providerConfigName ?k xr_net) l"
      by simp
  qed
  have fails: "\<not> converts ?k (spec_id ?k xr_net) (spec_includeGateway ?k xr_net)
      (spec_region ?k xr_net) (spec_providerConfigName ?k xr_net) 1"
    using c1 by simp
  have two: "vpcName ''net'' 2 = ''vpc-net-2''"
    by (simp add: vpcName_def Sprintf_d_def FormatUint.simps digit_def)
  note inst = conversion_failure_aborts_loop [OF obs des i before fails]
  from inst have err: "out_err (RunFunction ?k ?req) = None"
    and fatal: "is_fatal (out_rsp (RunFunction ?k ?req))"
    and desired: "rsp_Desired (out_rsp (RunFunction ?k ?req)) = [''kept'' \<mapsto> other]"
    by simp_all
  from inst [THEN conjunct2, THEN conjunct2, THEN conjunct2, THEN conjunct1]
  have results: "rsp_Results (out_rsp (RunFunction ?k ?req)) =
      [\<lparr>res_Severity = SEVERITY_FATAL,
        res_Message =
          ''cannot convert *v1beta1.InternetGateway to *composed.Unstructured: no kind registered''\<rparr>]"
    by (auto simp: bad_gateway_net_1 simp del: fixture_From)
  from inst [THEN conjunct2, THEN conjunct2, THEN conjunct2, THEN conjunct2]
  obtain d' where out: "out_desired (RunFunction ?k ?req) = Some d'"
    and held: "\<forall>l. 0 \<le> l \<and> l < 1 \<longrightarrow>
        holds ?k d' (vpcName ''net'' l) (VPCObject (vpc ''net'' ''eu-central-1'' ''default'' l)) \<and>
        holds ?k d' (gatewayName ''net'' l)
          (InternetGatewayObject (gateway ''net'' ''eu-central-1'' ''default'' l))"
    and here: "d' (vpcName ''net'' 1) =
        Some (DesiredComposed (VPCObject (vpc ''net'' ''eu-central-1'' ''default'' 1)))"
    and gw: "d' (gatewayName ''net'' 1) = ?d0 (gatewayName ''net'' 1)"
    and later: "\<forall>l. 1 < l \<longrightarrow> d' (vpcName ''net'' l) = ?d0 (vpcName ''net'' l) \<and>
        d' (gatewayName ''net'' l) = ?d0 (gatewayName ''net'' l)"
    by (auto simp: bad_gateway_net_1 simp del: fixture_From)
  from held have held0: "holds ?k d' ''vpc-net-0''
        (VPCObject (vpc ''net'' ''eu-central-1'' ''default'' 0)) \<and>
      holds ?k d' ''gateway-net-0''
        (InternetGatewayObject (gateway ''net'' ''eu-central-1'' ''default'' 0))"
    using names_literal by (metis order_refl zero_less_one)
  from later have "d' (vpcName ''net'' 2) = ?d0 (vpcName ''net'' 2)"
    by simp
  then have later2: "d' ''vpc-net-2'' = None"
    by (simp add: two)
  from gw have gw1: "d' ''gateway-net-1'' = None"
    by (simp add: names_literal)
  from here have here1: "d' ''vpc-net-1'' =
      Some (DesiredComposed (VPCObject (vpc ''net'' ''eu-central-1'' ''default'' 1)))"
    by (simp add: names_literal)
  from i c0 c1 err fatal desired results out held0 here1 gw1 later2 show ?thesis
    by (simp del: fixture_From)
qed

text \<open>
  C9, as the claim states it, fails in two ways. With the concrete SDK and the composite
  resource of the repository's test, all replicas complete; yet when the request already
  has a resource under the name \<open>vpc-code-0\<close>, the response is not fatal and carries the
  generated VPC under that name, not the resource that was there; and when writing the
  map into the response fails, the response is fatal.
\<close>

theorem response_carries_every_entry_counterexample:
  "converts (fixture no_object False) ''code'' True ''eu-central-1'' ''default'' 0 \<and>
   spec_count (fixture no_object False) xr_code = 1 \<and>
   \<not> is_fatal (out_rsp (RunFunction (fixture no_object False)
      (request (Some xr_code) [''vpc-code-0'' \<mapsto> other]))) \<and>
   req_Desired (request (Some xr_code) [''vpc-code-0'' \<mapsto> other]) ''vpc-code-0'' = Some other \<and>
   rsp_Desired (out_rsp (RunFunction (fixture no_object False)
      (request (Some xr_code) [''vpc-code-0'' \<mapsto> other]))) ''vpc-code-0'' \<noteq> Some other \<and>
   the (out_desired (RunFunction (fixture no_object False)
      (request (Some xr_code) [''vpc-code-0'' \<mapsto> other]))) ''vpc-code-0''
     \<noteq> Some (DesiredComposed other) \<and>
   converts (fixture no_object True) ''code'' True ''eu-central-1'' ''default'' 0 \<and>
   spec_count (fixture no_object True) xr_code = 1 \<and>
   is_fatal (out_rsp (RunFunction (fixture no_object True) (request (Some xr_code) Map.empty)))"
  using other_neq_generated
  by (simp add: run_code run_code_not_written is_fatal_def)

text \<open>
  C9, amended. When the conversions of all replicas succeed and writing the map into the
  response returns no error, the function returns no error and a response that is not
  fatal and has no result, with the request's tag and a time-to-live of 60 seconds. The
  response carries the full updated map: under the name of the VPC of every replica the
  wire form of the converted VPC and, with includeGateway, under the name of its gateway
  the wire form of the converted gateway; under every name the map had before that the
  loop does not write, the wire form of the resource the map had there; in all, the wire
  form of every resource of the map the function leaves, and under a name the map does
  not have, what the request had.
\<close>

theorem successful_response_carries_updated_map:
  fixes k :: "('o, 'w, 'xr, 'u) sdk" and oxr :: 'xr
  defines "a \<equiv> spec_id k oxr" and "c \<equiv> spec_count k oxr"
    and "g \<equiv> spec_includeGateway k oxr" and "r \<equiv> spec_region k oxr"
    and "p \<equiv> spec_providerConfigName k oxr"
  assumes obs: "GetObservedCompositeResource k req = Inr oxr"
    and des: "GetDesiredComposedResources k req = Inr d0"
    and conv: "\<forall>l. 0 \<le> l \<and> l < c \<longrightarrow> converts k a g r p l"
    and out: "out_desired (RunFunction k req) = Some d'"
    and written: "snd (SetDesiredComposedResources k (req_Desired req) d') = None"
  shows "out_err (RunFunction k req) = None \<and>
         \<not> is_fatal (out_rsp (RunFunction k req)) \<and>
         rsp_Results (out_rsp (RunFunction k req)) = [] \<and>
         rsp_Ttl (out_rsp (RunFunction k req)) = 60 * Second \<and>
         rsp_Tag (out_rsp (RunFunction k req)) = req_Tag req \<and>
         rsp_Desired (out_rsp (RunFunction k req)) =
           fst (SetDesiredComposedResources k (req_Desired req) d') \<and>
         (\<forall>i. 0 \<le> i \<and> i < c \<longrightarrow>
            holds k d' (vpcName a i) (VPCObject (vpc a r p i)) \<and>
            (g \<longrightarrow> holds k d' (gatewayName a i) (InternetGatewayObject (gateway a r p i)))) \<and>
         (\<forall>n v. d0 n = Some v \<and> n \<notin> names a g 0 c \<longrightarrow> d' n = Some v) \<and>
         dom d0 \<subseteq> dom d' \<and>
         (\<forall>i. 0 \<le> i \<and> i < c \<longrightarrow>
            carries_unit k (rsp_Desired (out_rsp (RunFunction k req))) (vpcName a i)
              (VPCObject (vpc a r p i)) \<and>
            (g \<longrightarrow> carries_unit k (rsp_Desired (out_rsp (RunFunction k req))) (gatewayName a i)
                     (InternetGatewayObject (gateway a r p i)))) \<and>
         (\<forall>n v. d0 n = Some v \<and> n \<notin> names a g 0 c \<longrightarrow>
            carries k (rsp_Desired (out_rsp (RunFunction k req))) n v) \<and>
         (\<forall>n dcd. d' n = Some dcd \<longrightarrow>
            carries k (rsp_Desired (out_rsp (RunFunction k req))) n dcd) \<and>
         (\<forall>n. d' n = None \<longrightarrow>
            rsp_Desired (out_rsp (RunFunction k req)) n = req_Desired req n)"
proof -
  let ?run = "replicas k a g r p 0 c d0"
  let ?res = "fst (SetDesiredComposedResources k (req_Desired req) d')"
  from conv have ok: "snd ?run = None"
    by (simp add: replicas_ok_iff)
  from out have d': "d' = fst ?run"
    using RunFunction_out_desired [OF obs des] by (simp add: a_def c_def g_def r_def p_def)
  with ok have loop: "?run = (d', None)"
    by (simp add: prod_eq_iff)
  have run: "RunFunction k req =
      \<lparr>out_rsp = response_To req DefaultTTL\<lparr>rsp_Desired := ?res\<rparr>,
       out_err = None, out_desired = Some d'\<rparr>"
    using loop written unfolding a_def c_def g_def r_def p_def
    by (rule RunFunction_written [OF obs des])
  then have rsp: "rsp_Desired (out_rsp (RunFunction k req)) = ?res"
    by simp
  have units: "\<forall>i. 0 \<le> i \<and> i < c \<longrightarrow>
      holds k d' (vpcName a i) (VPCObject (vpc a r p i)) \<and>
      (g \<longrightarrow> holds k d' (gatewayName a i) (InternetGatewayObject (gateway a r p i)))"
    unfolding d' using ok by (auto intro!: replicas_holds_vpc replicas_holds_gateway)
  have kept: "\<forall>n v. d0 n = Some v \<and> n \<notin> names a g 0 c \<longrightarrow> d' n = Some v"
    unfolding d' by (simp add: replicas_frame)
  have doms: "dom d0 \<subseteq> dom d'"
    unfolding d' by (rule replicas_dom)
  have all: "\<forall>n dcd. d' n = Some dcd \<longrightarrow> carries k ?res n dcd"
    using written by (auto intro: Set_carries)
  have rest: "\<forall>n. d' n = None \<longrightarrow> ?res n = req_Desired req n"
    using written by (auto intro: Set_keeps)
  have wire_units: "\<forall>i. 0 \<le> i \<and> i < c \<longrightarrow>
      carries_unit k ?res (vpcName a i) (VPCObject (vpc a r p i)) \<and>
      (g \<longrightarrow> carries_unit k ?res (gatewayName a i) (InternetGatewayObject (gateway a r p i)))"
    using units all by (auto intro: holds_carries_unit)
  have wire_kept: "\<forall>n v. d0 n = Some v \<and> n \<notin> names a g 0 c \<longrightarrow> carries k ?res n v"
    using kept all by blast
  have head: "out_err (RunFunction k req) = None \<and>
      \<not> is_fatal (out_rsp (RunFunction k req)) \<and>
      rsp_Results (out_rsp (RunFunction k req)) = [] \<and>
      rsp_Ttl (out_rsp (RunFunction k req)) = 60 * Second \<and>
      rsp_Tag (out_rsp (RunFunction k req)) = req_Tag req"
    by (simp add: run response_To_def is_fatal_def DefaultTTL_def Minute_def)
  from head units kept doms wire_units wire_kept all rest show ?thesis
    unfolding rsp by (intro conjI) (simp_all only: simp_thms)
qed

theorem successful_response_carries_updated_map_witness:
  "converts (fixture no_object False) ''code'' True ''eu-central-1'' ''default'' 0 \<and>
   snd (SetDesiredComposedResources (fixture no_object False) [''kept'' \<mapsto> other]
     (the (out_desired (RunFunction (fixture no_object False)
        (request (Some xr_code) [''kept'' \<mapsto> other]))))) = None \<and>
   \<not> is_fatal (out_rsp (RunFunction (fixture no_object False)
     (request (Some xr_code) [''kept'' \<mapsto> other]))) \<and>
   rsp_Ttl (out_rsp (RunFunction (fixture no_object False)
     (request (Some xr_code) [''kept'' \<mapsto> other]))) = 60 * Second \<and>
   rsp_Desired (out_rsp (RunFunction (fixture no_object False)
     (request (Some xr_code) [''kept'' \<mapsto> other]))) =
     [''kept'' \<mapsto> other,
      ''vpc-code-0'' \<mapsto> VPCObject (vpc ''code'' ''eu-central-1'' ''default'' 0),
      ''gateway-code-0'' \<mapsto>
        InternetGatewayObject (gateway ''code'' ''eu-central-1'' ''default'' 0)] \<and>
   holds (fixture no_object False)
     (the (out_desired (RunFunction (fixture no_object False)
        (request (Some xr_code) [''kept'' \<mapsto> other]))))
     ''vpc-code-0'' (VPCObject (vpc ''code'' ''eu-central-1'' ''default'' 0)) \<and>
   the (out_desired (RunFunction (fixture no_object False)
        (request (Some xr_code) [''kept'' \<mapsto> other]))) ''kept'' =
     Some (DesiredComposed other)"
proof -
  let ?k = "fixture no_object False"
  let ?req = "request (Some xr_code) [''kept'' \<mapsto> other]"
  let ?d0 = "map_option DesiredComposed \<circ> [''kept'' \<mapsto> other]"
  let ?d' = "?d0
     (''vpc-code-0'' \<mapsto>
        DesiredComposed (VPCObject (vpc ''code'' ''eu-central-1'' ''default'' 0)),
      ''gateway-code-0'' \<mapsto>
        DesiredComposed (InternetGatewayObject (gateway ''code'' ''eu-central-1'' ''default'' 0)))"
  have obs: "GetObservedCompositeResource ?k ?req = Inr xr_code"
    by simp
  have des: "GetDesiredComposedResources ?k ?req = Inr ?d0"
    by simp
  have conv: "\<forall>l. 0 \<le> l \<and> l < spec_count ?k xr_code \<longrightarrow>
      converts ?k (spec_id ?k xr_code) (spec_includeGateway ?k xr_code) (spec_region ?k xr_code)
        (spec_providerConfigName ?k xr_code) l"
    by simp
  have out: "out_desired (RunFunction ?k ?req) = Some ?d'"
    by (simp add: run_code)
  have written: "snd (SetDesiredComposedResources ?k (req_Desired ?req) ?d') = None"
    by simp
  note inst = successful_response_carries_updated_map [OF obs des conv out written]
  have set: "fst (SetDesiredComposedResources ?k (req_Desired ?req) ?d') =
      [''kept'' \<mapsto> other,
       ''vpc-code-0'' \<mapsto> VPCObject (vpc ''code'' ''eu-central-1'' ''default'' 0),
       ''gateway-code-0'' \<mapsto>
         InternetGatewayObject (gateway ''code'' ''eu-central-1'' ''default'' 0)]"
    by (auto simp: fun_eq_iff)
  have kept: "?d' ''kept'' = Some (DesiredComposed other)"
    by simp
  from inst have held: "holds ?k ?d' (vpcName ''code'' 0)
      (VPCObject (vpc ''code'' ''eu-central-1'' ''default'' 0))"
    by simp
  from inst have rsp: "\<not> is_fatal (out_rsp (RunFunction ?k ?req))"
      "rsp_Ttl (out_rsp (RunFunction ?k ?req)) = 60 * Second"
      "rsp_Desired (out_rsp (RunFunction ?k ?req)) =
        fst (SetDesiredComposedResources ?k (req_Desired ?req) ?d')"
    by simp_all
  have "converts ?k ''code'' True ''eu-central-1'' ''default'' 0"
    by simp
  with written rsp held kept show ?thesis
    unfolding out set by (simp add: names_literal del: fixture_Set fun_upd_apply)
qed

text \<open>
  C10. The function never returns an error: its second result is nil for every request
  and whatever the SDK returns. When the composite resource or the desired resources
  cannot be read, when a conversion of a replica fails, and when the map cannot be
  written into the response, the response it returns is fatal.
\<close>

theorem failures_are_fatal_responses_not_errors:
  fixes k :: "('o, 'w, 'xr, 'u) sdk"
  shows "out_err (RunFunction k req) = None \<and>
         (isl (GetObservedCompositeResource k req) \<longrightarrow>
            is_fatal (out_rsp (RunFunction k req))) \<and>
         (isl (GetDesiredComposedResources k req) \<longrightarrow>
            is_fatal (out_rsp (RunFunction k req))) \<and>
         (\<forall>oxr i. GetObservedCompositeResource k req = Inr oxr \<and>
            0 \<le> i \<and> i < spec_count k oxr \<and>
            \<not> converts k (spec_id k oxr) (spec_includeGateway k oxr) (spec_region k oxr)
                (spec_providerConfigName k oxr) i \<longrightarrow>
            is_fatal (out_rsp (RunFunction k req))) \<and>
         (\<forall>d'. out_desired (RunFunction k req) = Some d' \<and>
            snd (SetDesiredComposedResources k (req_Desired req) d') \<noteq> None \<longrightarrow>
            is_fatal (out_rsp (RunFunction k req)))"
proof (cases "GetObservedCompositeResource k req")
  case (Inl e)
  then show ?thesis
    by (simp add: RunFunction_no_composite)
next
  case obs: (Inr oxr)
  show ?thesis
  proof (cases "GetDesiredComposedResources k req")
    case (Inl e)
    with obs show ?thesis
      by (simp add: RunFunction_no_desired)
  next
    case des: (Inr d0)
    let ?run = "replicas k (spec_id k oxr) (spec_includeGateway k oxr) (spec_region k oxr)
      (spec_providerConfigName k oxr) 0 (spec_count k oxr) d0"
    have fatal: "is_fatal (out_rsp (RunFunction k req)) \<longleftrightarrow>
        snd ?run \<noteq> None \<or>
        snd (SetDesiredComposedResources k (req_Desired req) (fst ?run)) \<noteq> None"
      by (rule RunFunction_fatal_iff [OF obs des])
    have out: "out_desired (RunFunction k req) = Some (fst ?run)"
      by (rule RunFunction_out_desired [OF obs des])
    have "is_fatal (out_rsp (RunFunction k req))"
      if "0 \<le> i" "i < spec_count k oxr"
        "\<not> converts k (spec_id k oxr) (spec_includeGateway k oxr) (spec_region k oxr)
            (spec_providerConfigName k oxr) i" for i
    proof -
      from that have "snd ?run \<noteq> None"
        using replicas_ok_iff [of k "spec_id k oxr" "spec_includeGateway k oxr"
            "spec_region k oxr" "spec_providerConfigName k oxr" 0 "spec_count k oxr" d0]
        by blast
      with fatal show ?thesis by simp
    qed
    moreover have "is_fatal (out_rsp (RunFunction k req))"
      if "snd (SetDesiredComposedResources k (req_Desired req) (fst ?run)) \<noteq> None"
      using that fatal by simp
    ultimately show ?thesis
      using obs des out by (auto simp: RunFunction_out_err)
  qed
qed

theorem failures_are_fatal_responses_not_errors_witness:
  "isl (GetObservedCompositeResource (fixture no_object False) (request None Map.empty)) \<and>
   out_err (RunFunction (fixture no_object False) (request None Map.empty)) = None \<and>
   is_fatal (out_rsp (RunFunction (fixture no_object False) (request None Map.empty))) \<and>
   isl (GetDesiredComposedResources fixture_no_desired (request (Some xr_code) Map.empty)) \<and>
   out_err (RunFunction fixture_no_desired (request (Some xr_code) Map.empty)) = None \<and>
   is_fatal (out_rsp (RunFunction fixture_no_desired (request (Some xr_code) Map.empty))) \<and>
   \<not> converts (fixture (object_named ''gateway-net-1'') False)
     ''net'' True ''eu-central-1'' ''default'' 1 \<and>
   out_err (RunFunction (fixture (object_named ''gateway-net-1'') False)
     (request (Some xr_net) Map.empty)) = None \<and>
   is_fatal (out_rsp (RunFunction (fixture (object_named ''gateway-net-1'') False)
     (request (Some xr_net) Map.empty))) \<and>
   snd (SetDesiredComposedResources (fixture no_object True) Map.empty
     (the (out_desired (RunFunction (fixture no_object True)
        (request (Some xr_code) Map.empty))))) \<noteq> None \<and>
   out_err (RunFunction (fixture no_object True) (request (Some xr_code) Map.empty)) = None \<and>
   is_fatal (out_rsp (RunFunction (fixture no_object True) (request (Some xr_code) Map.empty)))"
proof -
  let ?bad = "fixture (object_named ''gateway-net-1'') False"
  have c1: "\<not> converts ?bad ''net'' True ''eu-central-1'' ''default'' 1"
    unfolding converts_def by (simp only: bad_gateway_net_1) simp
  have obs: "GetObservedCompositeResource ?bad (request (Some xr_net) Map.empty) = Inr xr_net"
    by simp
  let ?d' = "(map_option DesiredComposed \<circ> Map.empty)
     (''vpc-code-0'' \<mapsto>
        DesiredComposed (VPCObject (vpc ''code'' ''eu-central-1'' ''default'' 0)),
      ''gateway-code-0'' \<mapsto>
        DesiredComposed
          (InternetGatewayObject (gateway ''code'' ''eu-central-1'' ''default'' 0)))"
  have w: "out_desired (RunFunction (fixture no_object True) (request (Some xr_code) Map.empty))
      = Some ?d'"
    by (simp add: run_code_not_written)
  have "?d' ''gateway-code-0'' =
      Some (DesiredComposed
        (InternetGatewayObject (gateway ''code'' ''eu-central-1'' ''default'' 0)))"
    by simp
  then have "SetDesiredComposedResources (fixture no_object True) Map.empty ?d' =
      (Map.empty, Some ''cannot marshal'')"
    by (rule fixture_Set(2))
  then have nw: "snd (SetDesiredComposedResources (fixture no_object True) Map.empty ?d') \<noteq> None"
    by simp
  have d: "isl (GetDesiredComposedResources fixture_no_desired
      (request (Some xr_code) Map.empty))"
    by (simp add: fixture_no_desired_def)
  from failures_are_fatal_responses_not_errors
    [of "fixture no_object False" "request None Map.empty"]
  have one: "out_err (RunFunction (fixture no_object False) (request None Map.empty)) = None"
      "is_fatal (out_rsp (RunFunction (fixture no_object False) (request None Map.empty)))"
    by simp_all
  from failures_are_fatal_responses_not_errors
    [of fixture_no_desired "request (Some xr_code) Map.empty"] d
  have two: "out_err (RunFunction fixture_no_desired (request (Some xr_code) Map.empty)) = None"
      "is_fatal (out_rsp (RunFunction fixture_no_desired (request (Some xr_code) Map.empty)))"
    by simp_all
  note inst = failures_are_fatal_responses_not_errors [of ?bad "request (Some xr_net) Map.empty"]
  from inst have three: "out_err (RunFunction ?bad (request (Some xr_net) Map.empty)) = None"
    by simp
  from inst [THEN conjunct2, THEN conjunct2, THEN conjunct2, THEN conjunct1, rule_format,
      of xr_net 1] obs c1
  have three': "is_fatal (out_rsp (RunFunction ?bad (request (Some xr_net) Map.empty)))"
    by simp
  note inst' = failures_are_fatal_responses_not_errors
    [of "fixture no_object True" "request (Some xr_code) Map.empty"]
  from inst' have four: "out_err (RunFunction (fixture no_object True)
        (request (Some xr_code) Map.empty)) = None"
    by simp
  from inst' [THEN conjunct2, THEN conjunct2, THEN conjunct2, THEN conjunct2, rule_format,
      of ?d'] w nw
  have four': "is_fatal (out_rsp (RunFunction (fixture no_object True)
        (request (Some xr_code) Map.empty)))"
    by simp
  from w nw have nw': "snd (SetDesiredComposedResources (fixture no_object True) Map.empty
     (the (out_desired (RunFunction (fixture no_object True)
        (request (Some xr_code) Map.empty))))) \<noteq> None"
    by simp
  from one two three three' four four' nw' c1 d show ?thesis
    by (simp del: fixture_Set)
qed

end
